theory Spec2Isabelle
  imports Main "HOL-Library.AList"
begin

section \<open>Data model of the storage write path\<close>

text \<open>
  The update executors of \<^verbatim>\<open>storage/exec/UpdateNode.h\<close> (the version with row locks and
  index states), the result node of \<^verbatim>\<open>storage/exec/UpdateResultNode.h\<close>, the partition loop
  of \<^verbatim>\<open>LookupProcessor::process\<close> and the result-code helpers of \<^verbatim>\<open>BaseProcessor\<close>.
  Identifiers are those of the C++ source; a member \<^verbatim>\<open>x_\<close> is written \<open>x'\<close>.
  Collaborators whose code lives elsewhere (expression engine, row reader and writer, key
  codecs, index state, replicated KV layer, transaction manager) are fields of the
  environment records below. Identifiers of spaces, partitions, tags, edge types and indexes
  are integers; the only arithmetic on them is the absolute value of an edge type.
\<close>

type_synonym GraphSpaceID = int
type_synonym PartitionID = int
type_synonym TagID = int
type_synonym EdgeType = int
type_synonym EdgeRanking = int
type_synonym IndexID = int
type_synonym VertexID = string

text \<open>The error codes that the modelled functions name; every other code of the enum is \<open>E_OTHER\<close>.\<close>

datatype ErrorCode =
    SUCCEEDED
  | E_STORAGE_QUERY_CONCURRENT_MODIFY
  | E_STORAGE_QUERY_INVALID_DATA
  | E_STORAGE_QUERY_FILTER_NOT_PASSED
  | E_STORAGE_KVSTORE_KEY_NOT_FOUND
  | E_STORAGE_SCHEMA_TAG_NOT_FOUND
  | E_STORAGE_SCHEMA_EDGE_NOT_FOUND
  | E_STORAGE_SCHEMA_TAG_PROP_NOT_FOUND
  | E_STORAGE_SCHEMA_EDGE_PROP_NOT_FOUND
  | E_STORAGE_SCHEMA_NO_DEFAULT_VALUE_AND_NOT_NULLABLE
  | E_STORAGE_QUERY_READ_TAG_PROP_FAILD
  | E_STORAGE_QUERY_READ_EDGE_PROP_FAILED
  | E_LEADER_CHANGED
  | E_INDEX_NOT_FOUND
  | E_UNKNOWN
  | E_OTHER int

datatype ResultStatus = NORMAL | ILLEGAL_DATA | FILTER_OUT

datatype Value = kEmpty | kNullValue | VBool bool | VInt int | VStr string

datatype RowReader = RowReader (getData: string)

text \<open>A schema column: \<open>hasDefault\<close> is \<open>defaultValue \<noteq> None\<close>.\<close>

record 'e Field =
  name :: string
  defaultValue :: "'e option"
  nullable :: bool

type_synonym 'e Schema = "'e Field list"


text \<open>\<^verbatim>\<open>schema_->field(name)\<close>: the column of that name, or a null pointer.\<close>

definition field :: "'e Schema \<Rightarrow> string \<Rightarrow> 'e Field option" where
  "field schema p = find (\<lambda>f. name f = p) schema"

text \<open>The thrift union \<^verbatim>\<open>SchemaID\<close>; a getter applies to its own variant only.\<close>

datatype SchemaID = tag_id TagID | edge_type EdgeType

fun get_tag_id :: "SchemaID \<Rightarrow> TagID option" where
  "get_tag_id (tag_id t) = Some t"
| "get_tag_id (edge_type _) = None"

fun get_edge_type :: "SchemaID \<Rightarrow> EdgeType option" where
  "get_edge_type (edge_type t) = Some t"
| "get_edge_type (tag_id _) = None"

record IndexItem =
  index_id :: IndexID
  index_name :: string
  schema_id :: SchemaID
  index_fields :: "string list"

record UpdatedProp =
  up_name :: string
  up_value :: string

record EdgeKey =
  ek_src :: string
  ek_edge_type :: EdgeType
  ek_ranking :: EdgeRanking
  ek_dst :: string

text \<open>Lock identities: \<^verbatim>\<open>VMLI\<close> for vertices, \<^verbatim>\<open>EMLI\<close> for edges.\<close>

type_synonym VMLI = "GraphSpaceID \<times> PartitionID \<times> TagID \<times> VertexID"
type_synonym EMLI = "GraphSpaceID \<times> PartitionID \<times> string \<times> EdgeType \<times> EdgeRanking \<times> string"

text \<open>
  The expression context. \<^verbatim>\<open>setTagProp\<close> and \<^verbatim>\<open>setEdgeProp\<close> store a value under
  (schema name, property name); \<^verbatim>\<open>reset\<close> drops the row reader the filter node left behind.
\<close>

record StorageExpressionContext =
  ctx_reader :: "RowReader option"
  tagFilters :: "(string \<times> string) \<rightharpoonup> Value"
  edgeFilters :: "(string \<times> string) \<rightharpoonup> Value"

definition reset :: "StorageExpressionContext \<Rightarrow> StorageExpressionContext" where
  "reset c = c\<lparr>ctx_reader := None\<rparr>"

definition setTagProp ::
  "string \<Rightarrow> string \<Rightarrow> Value \<Rightarrow> StorageExpressionContext \<Rightarrow> StorageExpressionContext" where
  "setTagProp tagName prop v c = c\<lparr>tagFilters := (tagFilters c)((tagName, prop) \<mapsto> v)\<rparr>"

definition setEdgeProp ::
  "string \<Rightarrow> string \<Rightarrow> Value \<Rightarrow> StorageExpressionContext \<Rightarrow> StorageExpressionContext" where
  "setEdgeProp edgeName prop v c = c\<lparr>edgeFilters := (edgeFilters c)((edgeName, prop) \<mapsto> v)\<rparr>"

text \<open>The base class keeps \<open>isEdge_\<close>; the two subclasses differ in the setter they call.\<close>

definition setProp ::
  "bool \<Rightarrow> string \<Rightarrow> string \<Rightarrow> Value \<Rightarrow> StorageExpressionContext \<Rightarrow> StorageExpressionContext" where
  "setProp isEdge n prop v c = (if isEdge then setEdgeProp n prop v c else setTagProp n prop v c)"

definition getProp ::
  "bool \<Rightarrow> string \<Rightarrow> string \<Rightarrow> StorageExpressionContext \<Rightarrow> Value option" where
  "getProp isEdge n prop c = (if isEdge then edgeFilters c (n, prop) else tagFilters c (n, prop))"

text \<open>The implicit columns.\<close>

definition kVid :: string where "kVid = ''_vid''"
definition kTag :: string where "kTag = ''_tag''"
definition kSrc :: string where "kSrc = ''_src''"
definition kType :: string where "kType = ''_type''"
definition kRank :: string where "kRank = ''_rank''"
definition kDst :: string where "kDst = ''_dst''"

text \<open>A write batch: \<^verbatim>\<open>BatchHolder::put\<close> and \<^verbatim>\<open>remove\<close> append in call order.\<close>

datatype BatchOp = BatchPut string string | BatchRemove string

type_synonym Batch = "BatchOp list"

text \<open>
  Modelled from the spec: the index state enum and its two predicates
  (\<^verbatim>\<open>checkRebuilding\<close>, \<^verbatim>\<open>checkIndexLocked\<close> of the storage environment, whose code
  is not among the sources). The spec names the states normal, rebuilding and locked.
\<close>

datatype IndexState = Normal | Rebuilding | Locked

definition checkRebuilding :: "IndexState \<Rightarrow> bool" where
  "checkRebuilding s = (s = Rebuilding)"

definition checkIndexLocked :: "IndexState \<Rightarrow> bool" where
  "checkIndexLocked s = (s = Locked)"

text \<open>
  Modelled from the spec: the memory lock table holds a set of keys; the guard installs its
  keys or reports the first key that is already held. The guard releases what it installed
  when the executor returns.
\<close>

fun MemoryLockGuard :: "'k list \<Rightarrow> 'k list \<Rightarrow> 'k + 'k list" where
  "MemoryLockGuard table [] = Inr table"
| "MemoryLockGuard table (k # ks) =
     (if k \<in> set table then Inl k else MemoryLockGuard (k # table) ks)"

text \<open>
  Modelled from the spec: the replicated KV layer applies a batch all-or-nothing, the last
  operation on a key winning; a reply other than success leaves the partition as it was.
\<close>

type_synonym KVStore = "(GraphSpaceID \<times> PartitionID \<times> string) \<rightharpoonup> string"

fun applyBatchOp :: "GraphSpaceID \<Rightarrow> PartitionID \<Rightarrow> KVStore \<Rightarrow> BatchOp \<Rightarrow> KVStore" where
  "applyBatchOp s p st (BatchPut k v) = st((s, p, k) \<mapsto> v)"
| "applyBatchOp s p st (BatchRemove k) = st((s, p, k) := None)"

definition applyBatch :: "GraphSpaceID \<Rightarrow> PartitionID \<Rightarrow> Batch \<Rightarrow> KVStore \<Rightarrow> KVStore" where
  "applyBatch s p b st = foldl (applyBatchOp s p) st b"

definition asyncAppendBatch ::
  "ErrorCode \<Rightarrow> GraphSpaceID \<Rightarrow> PartitionID \<Rightarrow> Batch \<Rightarrow> KVStore \<Rightarrow> KVStore" where
  "asyncAppendBatch reply s p b st = (if reply = SUCCEEDED then applyBatch s p b st else st)"

subsection \<open>Collaborators\<close>

text \<open>
  Expression engine, row reader and row writer. \<open>decode\<close> is \<^verbatim>\<open>Expression::decode\<close> (a null
  pointer is \<open>None\<close>), \<open>eval\<close> is \<^verbatim>\<open>Expression::eval\<close>, \<open>readValue\<close> is
  \<^verbatim>\<open>QueryUtils::readValue\<close>, \<open>setValue\<close> and \<open>finish\<close> are those of \<^verbatim>\<open>RowWriterV2\<close>
  (\<open>finish\<close> also gives the encoded string of \<^verbatim>\<open>moveEncodedStr\<close>), the two reader
  factories are those of \<^verbatim>\<open>RowReaderWrapper\<close>.
\<close>

record 'e RowCollab =
  decode :: "string \<Rightarrow> 'e option"
  eval :: "'e \<Rightarrow> StorageExpressionContext \<Rightarrow> Value"
  readValue :: "RowReader \<Rightarrow> string \<Rightarrow> 'e Schema \<Rightarrow> Value option"
  setValue :: "'e Schema \<Rightarrow> string \<Rightarrow> Value \<Rightarrow> ErrorCode"
  finish :: "'e Schema \<Rightarrow> (string \<times> Value) list \<Rightarrow> ErrorCode \<times> string"
  getTagPropReader :: "GraphSpaceID \<Rightarrow> TagID \<Rightarrow> string \<Rightarrow> RowReader option"
  getEdgePropReader :: "GraphSpaceID \<Rightarrow> EdgeType \<Rightarrow> string \<Rightarrow> RowReader option"
  ttlValue :: "'e Schema \<Rightarrow> RowReader \<Rightarrow> (int \<times> int) option"

text \<open>Key codecs: \<^verbatim>\<open>NebulaKeyUtils\<close>, \<^verbatim>\<open>IndexKeyUtils\<close>, \<^verbatim>\<open>OperationKeyUtils\<close>.\<close>

record KeyUtils =
  NebulaKeyUtils_vertexKey :: "nat \<Rightarrow> PartitionID \<Rightarrow> VertexID \<Rightarrow> TagID \<Rightarrow> string"
  NebulaKeyUtils_edgeKey :: "nat \<Rightarrow> PartitionID \<Rightarrow> string \<Rightarrow> EdgeType \<Rightarrow> EdgeRanking \<Rightarrow> string \<Rightarrow> string"
  collectIndexValues :: "RowReader \<Rightarrow> string list \<Rightarrow> Value list option"
  vertexIndexKey :: "nat \<Rightarrow> PartitionID \<Rightarrow> IndexID \<Rightarrow> VertexID \<Rightarrow> Value list \<Rightarrow> string"
  edgeIndexKey ::
    "nat \<Rightarrow> PartitionID \<Rightarrow> IndexID \<Rightarrow> string \<Rightarrow> EdgeRanking \<Rightarrow> string \<Rightarrow> Value list \<Rightarrow> string"
  indexVal :: "int \<times> int \<Rightarrow> string"
  deleteOperationKey :: "PartitionID \<Rightarrow> string"
  modifyOperationKey :: "PartitionID \<Rightarrow> string \<Rightarrow> string"

text \<open>
  The storage environment: the index state of a partition, the reply of the replicated KV
  layer to an appended batch, and the optional transaction manager (\<open>None\<close> is the null
  pointer) with its switch per space. The manager is given the result of the closure and
  the store; it answers with a code, or with an invalid future (\<open>None\<close>), and a store.
\<close>

record StorageEnv =
  getIndexState :: "GraphSpaceID \<Rightarrow> PartitionID \<Rightarrow> IndexState"
  appendReply :: "GraphSpaceID \<Rightarrow> PartitionID \<Rightarrow> Batch \<Rightarrow> ErrorCode"
  txnMan' :: "(nat \<Rightarrow> GraphSpaceID \<Rightarrow> PartitionID \<Rightarrow> EdgeKey \<Rightarrow> Batch option \<Rightarrow> KVStore
               \<Rightarrow> ErrorCode option \<times> KVStore) option"
  enableToss :: "GraphSpaceID \<Rightarrow> bool"

record PlanContext =
  spaceId' :: GraphSpaceID
  vIdLen' :: nat
  tagId' :: TagID
  edgeType' :: EdgeType
  insert' :: bool

text \<open>
  What \<^verbatim>\<open>RelNode::execute\<close> leaves behind: the code of the upstream nodes (the read of the
  row and the filter), the result status they wrote into the plan context, the filter
  node's \<open>valid\<close>, \<open>reader\<close> and \<open>key\<close>, and the expression context they filled.
\<close>

record Upstream =
  up_ret :: ErrorCode
  resultStat' :: ResultStatus
  filter_valid :: bool
  filter_reader :: "RowReader option"
  filter_key :: string
  up_expCtx :: StorageExpressionContext

text \<open>The schema and name tables of \<^verbatim>\<open>TagContext\<close> and \<^verbatim>\<open>EdgeContext\<close>.\<close>

record 'e TagContext =
  tag_schemas' :: "TagID \<rightharpoonup> 'e Schema option list"
  tagNames' :: "TagID \<rightharpoonup> string"

record 'e EdgeContext =
  edge_schemas' :: "EdgeType \<rightharpoonup> 'e Schema option list"
  edgeNames' :: "EdgeType \<rightharpoonup> string"

text \<open>The constructor arguments of \<^verbatim>\<open>UpdateNode\<close>.\<close>

record UpdateNode =
  indexes' :: "IndexItem list"
  updatedProps' :: "UpdatedProp list"
  insertable' :: bool
  depPropMap' :: "(string \<times> string list) list"

text \<open>
  The members an executor writes while it runs. \<open>props_\<close> is an unordered map; it is kept
  as an association list with distinct keys and \<open>props_[k] = v\<close> is \<open>AList.update\<close>.
\<close>

record 'e NodeState =
  key' :: string
  reader' :: "RowReader option"
  schema' :: "'e Schema"
  val' :: string
  props' :: "(string \<times> Value) list"
  name' :: string
  expCtx' :: StorageExpressionContext

definition initNode :: "StorageExpressionContext \<Rightarrow> 'e NodeState" where
  "initNode c = \<lparr>key' = [], reader' = None, schema' = [], val' = [], props' = [],
                 name' = [], expCtx' = c\<rparr>"

datatype Event =
    LogVertexConflict VMLI
  | LogEdgeConflict EMLI
  | RelNodeExecute
  | AsyncAppendBatch GraphSpaceID PartitionID Batch
  | UpdateEdgeAtomic GraphSpaceID PartitionID EdgeKey "Batch option"

text \<open>What an executor returns, and what it did on the way.\<close>

record ExecResult =
  code :: ErrorCode
  store :: KVStore
  events :: "Event list"
  planCtx :: PlanContext
  ctx :: StorageExpressionContext


text \<open>The three groups of collaborators, as one value.\<close>

record 'e World =
  row :: "'e RowCollab"
  keys :: KeyUtils
  env' :: StorageEnv

section \<open>\<^verbatim>\<open>UpdateNode\<close>: what both executors share\<close>

text \<open>A loop whose body may leave the function: \<open>None\<close> is the early \<^verbatim>\<open>return\<close>.\<close>

fun foldOption :: "('a \<Rightarrow> 'b \<Rightarrow> 'b option) \<Rightarrow> 'a list \<Rightarrow> 'b \<Rightarrow> 'b option" where
  "foldOption f [] acc = Some acc"
| "foldOption f (x # xs) acc = (case f x acc of None \<Rightarrow> None | Some acc' \<Rightarrow> foldOption f xs acc')"

definition checkField :: "bool \<Rightarrow> 'e Field option \<Rightarrow> ErrorCode" where
  "checkField isEdge f =
     (case f of
        None \<Rightarrow> (if isEdge then E_STORAGE_SCHEMA_EDGE_PROP_NOT_FOUND
                 else E_STORAGE_SCHEMA_TAG_PROP_NOT_FOUND)
      | Some _ \<Rightarrow> SUCCEEDED)"

definition getDefaultOrNullValue ::
  "'e World \<Rightarrow> StorageExpressionContext \<Rightarrow> 'e Field \<Rightarrow> string \<Rightarrow> (string \<times> Value) list
   \<Rightarrow> ErrorCode + (string \<times> Value) list" where
  "getDefaultOrNullValue w c f n props =
     (case defaultValue f of
        Some expr \<Rightarrow> Inr (AList.update (name f) (eval (row w) expr c) props)
      | None \<Rightarrow>
          if nullable f then Inr (AList.update n kNullValue props)
          else Inl E_STORAGE_SCHEMA_NO_DEFAULT_VALUE_AND_NOT_NULLABLE)"

text \<open>
  \<^verbatim>\<open>checkPropsAndGetDefaultValue\<close>, first loop, inner part: the properties an update
  expression reads need a default or null unless an earlier update has set them.
\<close>

fun checkDepProps ::
  "'e World \<Rightarrow> bool \<Rightarrow> 'e Schema \<Rightarrow> StorageExpressionContext \<Rightarrow> string list
   \<Rightarrow> string list \<times> (string \<times> Value) list \<Rightarrow> ErrorCode + (string list \<times> (string \<times> Value) list)" where
  "checkDepProps w isEdge schema c [] acc = Inr acc"
| "checkDepProps w isEdge schema c (p # ps) (checkedProp, props) =
     (if p \<in> set checkedProp then checkDepProps w isEdge schema c ps (checkedProp, props)
      else
        (case field schema p of
           None \<Rightarrow> Inl (checkField isEdge (field schema p))
         | Some f \<Rightarrow>
             (case getDefaultOrNullValue w c f p props of
                Inl e \<Rightarrow> Inl e
              | Inr props1 \<Rightarrow> checkDepProps w isEdge schema c ps (p # checkedProp, props1))))"

text \<open>First loop, outer part: one entry of \<open>depPropMap_\<close> per property of the set clause.\<close>

fun checkSetClause ::
  "'e World \<Rightarrow> bool \<Rightarrow> 'e Schema \<Rightarrow> StorageExpressionContext \<Rightarrow> (string \<times> string list) list
   \<Rightarrow> string list \<times> (string \<times> Value) list \<Rightarrow> ErrorCode + (string list \<times> (string \<times> Value) list)" where
  "checkSetClause w isEdge schema c [] acc = Inr acc"
| "checkSetClause w isEdge schema c (prop # rest) acc =
     (case checkDepProps w isEdge schema c (snd prop) acc of
        Inl e \<Rightarrow> Inl e
      | Inr (checkedProp, props) \<Rightarrow>
          (case field schema (fst prop) of
             None \<Rightarrow> Inl (checkField isEdge (field schema (fst prop)))
           | Some _ \<Rightarrow> checkSetClause w isEdge schema c rest (fst prop # checkedProp, props)))"

text \<open>Second loop: every other column of the schema needs a default or null.\<close>

fun checkOtherProps ::
  "'e World \<Rightarrow> StorageExpressionContext \<Rightarrow> 'e Field list \<Rightarrow> string list \<Rightarrow> (string \<times> Value) list
   \<Rightarrow> ErrorCode + (string \<times> Value) list" where
  "checkOtherProps w c [] checkedProp props = Inr props"
| "checkOtherProps w c (f # fs) checkedProp props =
     (if name f \<in> set checkedProp then checkOtherProps w c fs checkedProp props
      else
        (case getDefaultOrNullValue w c f (name f) props of
           Inl e \<Rightarrow> Inl e
         | Inr props1 \<Rightarrow> checkOtherProps w c fs checkedProp props1))"

definition checkPropsAndGetDefaultValue ::
  "'e World \<Rightarrow> bool \<Rightarrow> UpdateNode \<Rightarrow> 'e Schema \<Rightarrow> StorageExpressionContext
   \<Rightarrow> (string \<times> Value) list \<Rightarrow> ErrorCode + (string \<times> Value) list" where
  "checkPropsAndGetDefaultValue w isEdge node schema c props =
     (case checkSetClause w isEdge schema c (depPropMap' node) ([], props) of
        Inl e \<Rightarrow> Inl e
      | Inr (checkedProp, props1) \<Rightarrow> checkOtherProps w c schema checkedProp props1)"

text \<open>The loop of \<^verbatim>\<open>collTagProp\<close> and \<^verbatim>\<open>collEdgeProp\<close> over the columns of the latest schema.\<close>

fun collProps ::
  "'e World \<Rightarrow> ErrorCode \<Rightarrow> RowReader \<Rightarrow> 'e Schema \<Rightarrow> 'e Field list \<Rightarrow> (string \<times> Value) list
   \<Rightarrow> ErrorCode + (string \<times> Value) list" where
  "collProps w failed r schema [] props = Inr props"
| "collProps w failed r schema (f # fs) props =
     (case readValue (row w) r (name f) schema of
        None \<Rightarrow> Inl failed
      | Some v \<Rightarrow> collProps w failed r schema fs (AList.update (name f) v props))"

text \<open>\<^verbatim>\<open>for (auto &p : props_) expCtx_->set...Prop(name, p.first, p.second)\<close>\<close>

definition setProps ::
  "bool \<Rightarrow> string \<Rightarrow> (string \<times> Value) list \<Rightarrow> StorageExpressionContext \<Rightarrow> StorageExpressionContext" where
  "setProps isEdge n props c = fold (\<lambda>p. setProp isEdge n (fst p) (snd p)) props c"

text \<open>
  The first loop of \<^verbatim>\<open>updateAndWriteBack\<close>: decode, evaluate in the current context,
  assign to \<open>props_\<close>, and write the value back into the context.
\<close>

fun applyUpdatedProps ::
  "'e World \<Rightarrow> bool \<Rightarrow> string \<Rightarrow> UpdatedProp list \<Rightarrow> (string \<times> Value) list \<times> StorageExpressionContext
   \<Rightarrow> ((string \<times> Value) list \<times> StorageExpressionContext) option" where
  "applyUpdatedProps w isEdge n [] acc = Some acc"
| "applyUpdatedProps w isEdge n (updateProp # rest) (props, c) =
     (case decode (row w) (up_value updateProp) of
        None \<Rightarrow> None
      | Some updateExp \<Rightarrow>
          (let updateVal = eval (row w) updateExp c
           in applyUpdatedProps w isEdge n rest
                (AList.update (up_name updateProp) updateVal props,
                 setProp isEdge n (up_name updateProp) updateVal c)))"

text \<open>The second loop: \<^verbatim>\<open>rowWriter_->setValue\<close> for every entry of \<open>props_\<close>.\<close>

definition setValues :: "'e World \<Rightarrow> 'e Schema \<Rightarrow> (string \<times> Value) list \<Rightarrow> bool" where
  "setValues w schema props = list_all (\<lambda>e. setValue (row w) schema (fst e) (snd e) = SUCCEEDED) props"

text \<open>Step 1 of the index loop, once the old index key is known to be non-empty.\<close>

definition oldIndexOp :: "'e World \<Rightarrow> GraphSpaceID \<Rightarrow> PartitionID \<Rightarrow> string \<Rightarrow> BatchOp option" where
  "oldIndexOp w space partId oi =
     (let iState = getIndexState (env' w) space partId
      in if checkRebuilding iState then Some (BatchPut (deleteOperationKey (keys w) partId) oi)
         else if checkIndexLocked iState then None
         else Some (BatchRemove oi))"

text \<open>Step 2 of the index loop, once the new index key is known to be non-empty.\<close>

definition newIndexOp ::
  "'e World \<Rightarrow> GraphSpaceID \<Rightarrow> PartitionID \<Rightarrow> string \<Rightarrow> string \<Rightarrow> BatchOp option" where
  "newIndexOp w space partId ni niv =
     (let indexState = getIndexState (env' w) space partId
      in if checkRebuilding indexState
         then Some (BatchPut (modifyOperationKey (keys w) partId ni) niv)
         else if checkIndexLocked indexState then None
         else Some (BatchPut ni niv))"

text \<open>
  The body of the loop over \<open>indexes_\<close>. \<open>matches\<close> is the comparison of the index's schema
  id with the executor's tag id or edge type, \<open>ikey\<close> the executor's \<^verbatim>\<open>indexKey\<close> for this
  index, \<open>mkReader\<close> the reader that the factory gives for the new row. The loop carries
  \<open>nReader\<close>, made at the first matching index, and the batch.
\<close>

definition indexStep ::
  "'e World \<Rightarrow> GraphSpaceID \<Rightarrow> PartitionID \<Rightarrow> 'e NodeState \<Rightarrow> bool \<Rightarrow> (RowReader \<Rightarrow> string)
   \<Rightarrow> RowReader option \<Rightarrow> RowReader option \<times> Batch \<Rightarrow> (RowReader option \<times> Batch) option" where
  "indexStep w space partId st matches ikey mkReader acc =
     (if matches then
        (case (if val' st \<noteq> [] then
                 (case reader' st of
                    None \<Rightarrow> None
                  | Some r \<Rightarrow>
                      (let oi = ikey r
                       in if oi \<noteq> [] then
                            (case oldIndexOp w space partId oi of
                               None \<Rightarrow> None
                             | Some b \<Rightarrow> Some (snd acc @ [b]))
                          else Some (snd acc)))
               else Some (snd acc)) of
           None \<Rightarrow> None
         | Some batch \<Rightarrow>
             (case (case fst acc of None \<Rightarrow> mkReader | Some r \<Rightarrow> Some r) of
                None \<Rightarrow> None
              | Some nReader \<Rightarrow>
                  (let ni = ikey nReader
                   in if ni \<noteq> [] then
                        (let niv = (case ttlValue (row w) (schema' st) nReader of
                                      Some v \<Rightarrow> indexVal (keys w) v
                                    | None \<Rightarrow> [])
                         in case newIndexOp w space partId ni niv of
                              None \<Rightarrow> None
                            | Some b \<Rightarrow> Some (Some nReader, batch @ [b]))
                      else Some (Some nReader, batch))))
      else Some acc)"


section \<open>\<^verbatim>\<open>UpdateTagNode\<close>\<close>

definition getLatestTagSchemaAndName ::
  "'e TagContext \<Rightarrow> TagID \<Rightarrow> ErrorCode + ('e Schema \<times> string)" where
  "getLatestTagSchemaAndName tagContext tagId =
     (case tag_schemas' tagContext tagId of
        None \<Rightarrow> Inl E_STORAGE_SCHEMA_TAG_NOT_FOUND
      | Some versions \<Rightarrow>
          if versions = [] then Inl E_STORAGE_SCHEMA_TAG_NOT_FOUND
          else
            (case last versions of
               None \<Rightarrow> Inl E_STORAGE_SCHEMA_TAG_NOT_FOUND
             | Some schema \<Rightarrow>
                 (case tagNames' tagContext tagId of
                    None \<Rightarrow> Inl E_STORAGE_SCHEMA_TAG_NOT_FOUND
                  | Some tagName \<Rightarrow> Inr (schema, tagName))))"

text \<open>\<^verbatim>\<open>insertTagProps\<close> sets \<open>insert_\<close> of the plan context before anything can fail.\<close>

definition insertTagProps ::
  "'e World \<Rightarrow> 'e TagContext \<Rightarrow> UpdateNode \<Rightarrow> PlanContext \<Rightarrow> 'e NodeState \<Rightarrow> PartitionID \<Rightarrow> VertexID
   \<Rightarrow> PlanContext \<times> (ErrorCode + 'e NodeState)" where
  "insertTagProps w tagContext node pc st partId vId =
     (pc\<lparr>insert' := True\<rparr>,
      (case getLatestTagSchemaAndName tagContext (tagId' pc) of
         Inl e \<Rightarrow> Inl e
       | Inr (schema, tagName) \<Rightarrow>
           (case checkPropsAndGetDefaultValue w False node schema (expCtx' st) (props' st) of
              Inl e \<Rightarrow> Inl e
            | Inr props \<Rightarrow>
                Inr (st\<lparr>schema' := schema, name' := tagName, props' := props,
                        expCtx' := setProps False tagName props
                                     (setTagProp tagName kTag (VInt (tagId' pc))
                                        (setTagProp tagName kVid (VStr vId) (expCtx' st))),
                        key' := NebulaKeyUtils_vertexKey (keys w) (vIdLen' pc) partId vId (tagId' pc)\<rparr>))))"

definition collTagProp ::
  "'e World \<Rightarrow> 'e TagContext \<Rightarrow> PlanContext \<Rightarrow> 'e NodeState \<Rightarrow> RowReader \<Rightarrow> VertexID
   \<Rightarrow> ErrorCode + 'e NodeState" where
  "collTagProp w tagContext pc st r vId =
     (case getLatestTagSchemaAndName tagContext (tagId' pc) of
        Inl e \<Rightarrow> Inl e
      | Inr (schema, tagName) \<Rightarrow>
          (case collProps w E_STORAGE_QUERY_READ_TAG_PROP_FAILD r schema schema (props' st) of
             Inl e \<Rightarrow> Inl e
           | Inr props \<Rightarrow>
               Inr (st\<lparr>schema' := schema, name' := tagName, props' := props,
                       expCtx' := setProps False tagName props
                                    (setTagProp tagName kTag (VInt (tagId' pc))
                                       (setTagProp tagName kVid (VStr vId) (expCtx' st))),
                       val' := getData r\<rparr>)))"

definition tag_indexKey ::
  "'e World \<Rightarrow> PlanContext \<Rightarrow> PartitionID \<Rightarrow> VertexID \<Rightarrow> RowReader \<Rightarrow> IndexItem \<Rightarrow> string" where
  "tag_indexKey w pc partId vId r index =
     (case collectIndexValues (keys w) r (index_fields index) of
        None \<Rightarrow> []
      | Some values \<Rightarrow> vertexIndexKey (keys w) (vIdLen' pc) partId (index_id index) vId values)"

text \<open>The loop over \<open>indexes_\<close> of \<^verbatim>\<open>UpdateTagNode::updateAndWriteBack\<close>.\<close>

definition tag_indexes ::
  "'e World \<Rightarrow> UpdateNode \<Rightarrow> PlanContext \<Rightarrow> 'e NodeState \<Rightarrow> PartitionID \<Rightarrow> VertexID \<Rightarrow> string
   \<Rightarrow> (RowReader option \<times> Batch) option" where
  "tag_indexes w node pc st partId vId nVal =
     foldOption
       (\<lambda>index. indexStep w (spaceId' pc) partId st
          (Some (tagId' pc) = get_tag_id (schema_id index))
          (\<lambda>r. tag_indexKey w pc partId vId r index)
          (getTagPropReader (row w) (spaceId' pc) (tagId' pc) nVal))
       (indexes' node) (None, [])"

text \<open>
  \<^verbatim>\<open>UpdateTagNode::updateAndWriteBack\<close>. The result is the batch before its serialisation
  by \<^verbatim>\<open>encodeBatchValue\<close>, with the properties and the context that produced it.
\<close>

definition tag_updateAndWriteBack ::
  "'e World \<Rightarrow> UpdateNode \<Rightarrow> PlanContext \<Rightarrow> 'e NodeState \<Rightarrow> PartitionID \<Rightarrow> VertexID
   \<Rightarrow> (Batch \<times> 'e NodeState) option" where
  "tag_updateAndWriteBack w node pc st partId vId =
     (case applyUpdatedProps w False (name' st) (updatedProps' node) (props' st, expCtx' st) of
        None \<Rightarrow> None
      | Some (props, c) \<Rightarrow>
          if \<not> setValues w (schema' st) props then None
          else
            (case finish (row w) (schema' st) props of
               (wRet, nVal) \<Rightarrow>
                 if wRet \<noteq> SUCCEEDED then None
                 else
                   (case tag_indexes w node pc st partId vId nVal of
                      None \<Rightarrow> None
                    | Some (nReader, batch) \<Rightarrow>
                        Some (batch @ [BatchPut (key' st) nVal],
                              st\<lparr>props' := props, expCtx' := c\<rparr>))))"

text \<open>
  The result of an executor that returns before the commit: nothing is written. The context
  is read by the result node on the codes \<open>SUCCEEDED\<close> and
  \<open>E_STORAGE_QUERY_FILTER_NOT_PASSED\<close> only.
\<close>

definition leave ::
  "ErrorCode \<Rightarrow> KVStore \<Rightarrow> Event list \<Rightarrow> PlanContext \<Rightarrow> StorageExpressionContext \<Rightarrow> ExecResult" where
  "leave e st evs pc c = \<lparr>code = e, store = st, events = evs, planCtx = pc, ctx = c\<rparr>"

text \<open>
  \<^verbatim>\<open>UpdateTagNode::execute\<close>. \<open>locks\<close> is the content of the vertex lock table, \<open>c0\<close> the
  expression context on entry, \<open>up\<close> what \<^verbatim>\<open>RelNode::execute\<close> leaves, \<open>kv\<close> the store.
\<close>

definition tag_prepare ::
  "'e World \<Rightarrow> 'e TagContext \<Rightarrow> UpdateNode \<Rightarrow> PlanContext \<Rightarrow> Upstream \<Rightarrow> PartitionID \<Rightarrow> VertexID
   \<Rightarrow> PlanContext \<times> (ErrorCode + 'e NodeState)" where
  "tag_prepare w tagContext node pc up partId vId =
     (let st = (initNode (reset (up_expCtx up)))
                 \<lparr>reader' := (if filter_valid up then filter_reader up else None)\<rparr>
      in case reader' st of
           None \<Rightarrow>
             if insertable' node then insertTagProps w tagContext node pc st partId vId
             else (pc, Inl E_STORAGE_KVSTORE_KEY_NOT_FOUND)
         | Some r \<Rightarrow> (pc, collTagProp w tagContext pc (st\<lparr>key' := filter_key up\<rparr>) r vId))"

definition UpdateTagNode_execute ::
  "'e World \<Rightarrow> 'e TagContext \<Rightarrow> UpdateNode \<Rightarrow> VMLI list \<Rightarrow> PlanContext \<Rightarrow> StorageExpressionContext
   \<Rightarrow> Upstream \<Rightarrow> KVStore \<Rightarrow> PartitionID \<Rightarrow> VertexID \<Rightarrow> ExecResult" where
  "UpdateTagNode_execute w tagContext node locks pc c0 up kv partId vId =
     (case MemoryLockGuard locks [(spaceId' pc, partId, tagId' pc, vId)] of
        Inl conflict \<Rightarrow>
          leave E_STORAGE_QUERY_CONCURRENT_MODIFY kv [LogVertexConflict conflict] pc c0
      | Inr held \<Rightarrow>
          if up_ret up \<noteq> SUCCEEDED then leave (up_ret up) kv [RelNodeExecute] pc (up_expCtx up)
          else if resultStat' up = ILLEGAL_DATA
          then leave E_STORAGE_QUERY_INVALID_DATA kv [RelNodeExecute] pc (up_expCtx up)
          else if resultStat' up = FILTER_OUT
          then leave E_STORAGE_QUERY_FILTER_NOT_PASSED kv [RelNodeExecute] pc (up_expCtx up)
          else
            (case tag_prepare w tagContext node pc up partId vId of
               (pc1, Inl e) \<Rightarrow> leave e kv [RelNodeExecute] pc1 (reset (up_expCtx up))
             | (pc1, Inr st) \<Rightarrow>
                 (case tag_updateAndWriteBack w node pc1 st partId vId of
                    None \<Rightarrow>
                      leave E_STORAGE_QUERY_INVALID_DATA kv [RelNodeExecute] pc1 (expCtx' st)
                  | Some (batch, st1) \<Rightarrow>
                      (let reply = appendReply (env' w) (spaceId' pc1) partId batch
                       in \<lparr>code = reply,
                           store = asyncAppendBatch reply (spaceId' pc1) partId batch kv,
                           events = [RelNodeExecute, AsyncAppendBatch (spaceId' pc1) partId batch],
                           planCtx = pc1,
                           ctx = expCtx' st1\<rparr>))))"


section \<open>\<^verbatim>\<open>UpdateEdgeNode\<close>\<close>

definition getLatestEdgeSchemaAndName ::
  "'e EdgeContext \<Rightarrow> EdgeType \<Rightarrow> ErrorCode + ('e Schema \<times> string)" where
  "getLatestEdgeSchemaAndName edgeContext edgeType =
     (case edge_schemas' edgeContext (abs edgeType) of
        None \<Rightarrow> Inl E_STORAGE_SCHEMA_EDGE_NOT_FOUND
      | Some versions \<Rightarrow>
          if versions = [] then Inl E_STORAGE_SCHEMA_EDGE_NOT_FOUND
          else
            (case last versions of
               None \<Rightarrow> Inl E_STORAGE_SCHEMA_EDGE_NOT_FOUND
             | Some schema \<Rightarrow>
                 (case edgeNames' edgeContext edgeType of
                    None \<Rightarrow> Inl E_STORAGE_SCHEMA_EDGE_NOT_FOUND
                  | Some edgeName \<Rightarrow> Inr (schema, edgeName))))"

text \<open>The four implicit columns, in the order the source sets them.\<close>

definition setEdgeKeyProps ::
  "string \<Rightarrow> EdgeKey \<Rightarrow> StorageExpressionContext \<Rightarrow> StorageExpressionContext" where
  "setEdgeKeyProps edgeName edgeKey c =
     setEdgeProp edgeName kType (VInt (ek_edge_type edgeKey))
       (setEdgeProp edgeName kRank (VInt (ek_ranking edgeKey))
          (setEdgeProp edgeName kDst (VStr (ek_dst edgeKey))
             (setEdgeProp edgeName kSrc (VStr (ek_src edgeKey)) c)))"

definition insertEdgeProps ::
  "'e World \<Rightarrow> 'e EdgeContext \<Rightarrow> UpdateNode \<Rightarrow> PlanContext \<Rightarrow> 'e NodeState \<Rightarrow> PartitionID \<Rightarrow> EdgeKey
   \<Rightarrow> PlanContext \<times> (ErrorCode + 'e NodeState)" where
  "insertEdgeProps w edgeContext node pc st partId edgeKey =
     (pc\<lparr>insert' := True\<rparr>,
      (case getLatestEdgeSchemaAndName edgeContext (edgeType' pc) of
         Inl e \<Rightarrow> Inl e
       | Inr (schema, edgeName) \<Rightarrow>
           (case checkPropsAndGetDefaultValue w True node schema (expCtx' st) (props' st) of
              Inl e \<Rightarrow> Inl e
            | Inr props \<Rightarrow>
                Inr (st\<lparr>schema' := schema, name' := edgeName, props' := props,
                        expCtx' := setProps True edgeName props
                                     (setEdgeKeyProps edgeName edgeKey (expCtx' st)),
                        key' := NebulaKeyUtils_edgeKey (keys w) (vIdLen' pc) partId (ek_src edgeKey)
                                  (ek_edge_type edgeKey) (ek_ranking edgeKey) (ek_dst edgeKey)\<rparr>))))"

definition collEdgeProp ::
  "'e World \<Rightarrow> 'e EdgeContext \<Rightarrow> PlanContext \<Rightarrow> 'e NodeState \<Rightarrow> RowReader \<Rightarrow> EdgeKey
   \<Rightarrow> ErrorCode + 'e NodeState" where
  "collEdgeProp w edgeContext pc st r edgeKey =
     (case getLatestEdgeSchemaAndName edgeContext (edgeType' pc) of
        Inl e \<Rightarrow> Inl e
      | Inr (schema, edgeName) \<Rightarrow>
          (case collProps w E_STORAGE_QUERY_READ_EDGE_PROP_FAILED r schema schema (props' st) of
             Inl e \<Rightarrow> Inl e
           | Inr props \<Rightarrow>
               Inr (st\<lparr>schema' := schema, name' := edgeName, props' := props,
                       expCtx' := setProps True edgeName props
                                    (setEdgeKeyProps edgeName edgeKey (expCtx' st)),
                       val' := getData r\<rparr>)))"

definition edge_indexKey ::
  "'e World \<Rightarrow> PlanContext \<Rightarrow> PartitionID \<Rightarrow> RowReader \<Rightarrow> EdgeKey \<Rightarrow> IndexItem \<Rightarrow> string" where
  "edge_indexKey w pc partId r edgeKey index =
     (case collectIndexValues (keys w) r (index_fields index) of
        None \<Rightarrow> []
      | Some values \<Rightarrow>
          edgeIndexKey (keys w) (vIdLen' pc) partId (index_id index) (ek_src edgeKey)
            (ek_ranking edgeKey) (ek_dst edgeKey) values)"

text \<open>The loop over \<open>indexes_\<close> of \<^verbatim>\<open>UpdateEdgeNode::updateAndWriteBack\<close>.\<close>

definition edge_indexes ::
  "'e World \<Rightarrow> UpdateNode \<Rightarrow> PlanContext \<Rightarrow> 'e NodeState \<Rightarrow> PartitionID \<Rightarrow> EdgeKey \<Rightarrow> string
   \<Rightarrow> (RowReader option \<times> Batch) option" where
  "edge_indexes w node pc st partId edgeKey nVal =
     foldOption
       (\<lambda>index. indexStep w (spaceId' pc) partId st
          (Some (edgeType' pc) = get_edge_type (schema_id index))
          (\<lambda>r. edge_indexKey w pc partId r edgeKey index)
          (getEdgePropReader (row w) (spaceId' pc) (abs (edgeType' pc)) nVal))
       (indexes' node) (None, [])"

definition edge_updateAndWriteBack ::
  "'e World \<Rightarrow> UpdateNode \<Rightarrow> PlanContext \<Rightarrow> 'e NodeState \<Rightarrow> PartitionID \<Rightarrow> EdgeKey
   \<Rightarrow> (Batch \<times> 'e NodeState) option" where
  "edge_updateAndWriteBack w node pc st partId edgeKey =
     (case applyUpdatedProps w True (name' st) (updatedProps' node) (props' st, expCtx' st) of
        None \<Rightarrow> None
      | Some (props, c) \<Rightarrow>
          if \<not> setValues w (schema' st) props then None
          else
            (case finish (row w) (schema' st) props of
               (wRet, nVal) \<Rightarrow>
                 if wRet \<noteq> SUCCEEDED then None
                 else
                   (case edge_indexes w node pc st partId edgeKey nVal of
                      None \<Rightarrow> None
                    | Some (nReader, batch) \<Rightarrow>
                        Some (batch @ [BatchPut (key' st) nVal],
                              st\<lparr>props' := props, expCtx' := c\<rparr>))))"

definition edge_prepare ::
  "'e World \<Rightarrow> 'e EdgeContext \<Rightarrow> UpdateNode \<Rightarrow> PlanContext \<Rightarrow> Upstream \<Rightarrow> PartitionID \<Rightarrow> EdgeKey
   \<Rightarrow> PlanContext \<times> (ErrorCode + 'e NodeState)" where
  "edge_prepare w edgeContext node pc up partId edgeKey =
     (let st = (initNode (reset (up_expCtx up)))
                 \<lparr>reader' := (if filter_valid up then filter_reader up else None)\<rparr>
      in case reader' st of
           None \<Rightarrow>
             if insertable' node then insertEdgeProps w edgeContext node pc st partId edgeKey
             else (pc, Inl E_STORAGE_KVSTORE_KEY_NOT_FOUND)
         | Some r \<Rightarrow> (pc, collEdgeProp w edgeContext pc (st\<lparr>key' := filter_key up\<rparr>) r edgeKey))"

text \<open>
  The closure \<open>op\<close> of \<^verbatim>\<open>UpdateEdgeNode::execute\<close>: the batch it returns (\<open>None\<close> is
  \<^verbatim>\<open>folly::none\<close>), the member \<open>exeResult_\<close> it writes, and the plan and expression context
  it leaves.
\<close>

record OpResult =
  op_batch :: "Batch option"
  exeResult' :: ErrorCode
  op_planCtx :: PlanContext
  op_ctx :: StorageExpressionContext

definition noBatch :: "ErrorCode \<Rightarrow> PlanContext \<Rightarrow> StorageExpressionContext \<Rightarrow> OpResult" where
  "noBatch e pc c = \<lparr>op_batch = None, exeResult' = e, op_planCtx = pc, op_ctx = c\<rparr>"

definition edge_op ::
  "'e World \<Rightarrow> 'e EdgeContext \<Rightarrow> UpdateNode \<Rightarrow> PlanContext \<Rightarrow> Upstream \<Rightarrow> PartitionID \<Rightarrow> EdgeKey
   \<Rightarrow> OpResult" where
  "edge_op w edgeContext node pc up partId edgeKey =
     (if up_ret up = SUCCEEDED then
        if ek_edge_type edgeKey \<noteq> edgeType' pc
        then noBatch E_STORAGE_KVSTORE_KEY_NOT_FOUND pc (up_expCtx up)
        else if resultStat' up = ILLEGAL_DATA
        then noBatch E_STORAGE_QUERY_INVALID_DATA pc (up_expCtx up)
        else if resultStat' up = FILTER_OUT
        then noBatch E_STORAGE_QUERY_FILTER_NOT_PASSED pc (up_expCtx up)
        else
          (case edge_prepare w edgeContext node pc up partId edgeKey of
             (pc1, Inl e) \<Rightarrow> noBatch e pc1 (reset (up_expCtx up))
           | (pc1, Inr st) \<Rightarrow>
               (case edge_updateAndWriteBack w node pc1 st partId edgeKey of
                  None \<Rightarrow> noBatch E_STORAGE_QUERY_INVALID_DATA pc1 (expCtx' st)
                | Some (batch, st1) \<Rightarrow>
                    \<lparr>op_batch = Some batch, exeResult' = SUCCEEDED, op_planCtx = pc1,
                     op_ctx = expCtx' st1\<rparr>))
      else noBatch (up_ret up) pc (up_expCtx up))"

text \<open>
  The transaction manager takes the update over when it exists and is enabled for the space.
  It receives the closure; the model gives it the closure's result, as if it ran the closure
  once, and takes the code of the update and the store from it.
\<close>

definition toss ::
  "StorageEnv \<Rightarrow> GraphSpaceID
   \<Rightarrow> (nat \<Rightarrow> GraphSpaceID \<Rightarrow> PartitionID \<Rightarrow> EdgeKey \<Rightarrow> Batch option \<Rightarrow> KVStore
       \<Rightarrow> ErrorCode option \<times> KVStore) option" where
  "toss e space =
     (case txnMan' e of None \<Rightarrow> None | Some m \<Rightarrow> if enableToss e space then Some m else None)"

definition UpdateEdgeNode_execute ::
  "'e World \<Rightarrow> 'e EdgeContext \<Rightarrow> UpdateNode \<Rightarrow> EMLI list \<Rightarrow> PlanContext \<Rightarrow> StorageExpressionContext
   \<Rightarrow> Upstream \<Rightarrow> KVStore \<Rightarrow> PartitionID \<Rightarrow> EdgeKey \<Rightarrow> ExecResult" where
  "UpdateEdgeNode_execute w edgeContext node locks pc c0 up kv partId edgeKey =
     (case MemoryLockGuard locks
             [(spaceId' pc, partId, ek_src edgeKey, ek_edge_type edgeKey, ek_ranking edgeKey,
               ek_dst edgeKey)] of
        Inl conflict \<Rightarrow>
          leave E_STORAGE_QUERY_CONCURRENT_MODIFY kv [LogEdgeConflict conflict] pc c0
      | Inr held \<Rightarrow>
          (let r = edge_op w edgeContext node pc up partId edgeKey
           in case toss (env' w) (spaceId' pc) of
                Some updateEdgeAtomic \<Rightarrow>
                  (case updateEdgeAtomic (vIdLen' pc) (spaceId' pc) partId edgeKey (op_batch r) kv of
                     (f, kv1) \<Rightarrow>
                       \<lparr>code = (case f of Some e \<Rightarrow> e | None \<Rightarrow> E_UNKNOWN),
                        store = kv1,
                        events = [RelNodeExecute,
                                  UpdateEdgeAtomic (spaceId' pc) partId edgeKey (op_batch r)],
                        planCtx = op_planCtx r,
                        ctx = op_ctx r\<rparr>)
              | None \<Rightarrow>
                  (case op_batch r of
                     None \<Rightarrow> leave (exeResult' r) kv [RelNodeExecute] (op_planCtx r) (op_ctx r)
                   | Some batch \<Rightarrow>
                       (let reply = appendReply (env' w) (spaceId' pc) partId batch
                        in \<lparr>code = reply,
                            store = asyncAppendBatch reply (spaceId' pc) partId batch kv,
                            events = [RelNodeExecute, AsyncAppendBatch (spaceId' pc) partId batch],
                            planCtx = op_planCtx r,
                            ctx = op_ctx r\<rparr>))))"

section \<open>\<^verbatim>\<open>UpdateResNode\<close>\<close>

record DataSet =
  colNames :: "string list"
  rows :: "Value list list"

text \<open>A yielded column: the expression with the \<^verbatim>\<open>sym()\<close> and \<^verbatim>\<open>prop()\<close> of its \<^verbatim>\<open>PropertyExpression\<close>.\<close>

record 'e PropertyExpression =
  pe_sym :: string
  pe_prop :: string
  pe_expr :: 'e

text \<open>
  \<^verbatim>\<open>UpdateResNode::execute\<close>, applied to what the update node below it returned
  (\<^verbatim>\<open>RelNode<T>::execute\<close> runs that node).
\<close>

definition UpdateResNode_execute ::
  "'e World \<Rightarrow> 'e PropertyExpression list \<Rightarrow> DataSet \<Rightarrow> ExecResult \<Rightarrow> ErrorCode \<times> DataSet" where
  "UpdateResNode_execute w returnPropsExp result r =
     (if code r \<noteq> SUCCEEDED \<and> code r \<noteq> E_STORAGE_QUERY_FILTER_NOT_PASSED then (code r, result)
      else
        (code r,
         \<lparr>colNames = colNames result @ [''_inserted'']
                        @ map (\<lambda>exp. pe_sym exp @ ''.'' @ pe_prop exp) returnPropsExp,
          rows = rows result
                   @ [VBool (insert' (planCtx r))
                        # map (\<lambda>exp. eval (row w) (pe_expr exp) (ctx r)) returnPropsExp]\<rparr>))"

section \<open>\<^verbatim>\<open>BaseProcessor\<close> result codes and \<^verbatim>\<open>LookupProcessor::process\<close>\<close>








section \<open>The index table and the column defaults of the specification\<close>

text \<open>
  What the specification's table asks of a writer, per index state: for the old index key a
  removal (normal) or a delete-operation record (rebuilding), for the new index key a put
  (normal) or a modify-operation record (rebuilding); an empty key asks for nothing.
\<close>

definition oldEntry :: "IndexState \<Rightarrow> KeyUtils \<Rightarrow> PartitionID \<Rightarrow> string \<Rightarrow> Batch" where
  "oldEntry s ku partId oi =
     (if oi = [] then []
      else (case s of
              Normal \<Rightarrow> [BatchRemove oi]
            | Rebuilding \<Rightarrow> [BatchPut (deleteOperationKey ku partId) oi]
            | Locked \<Rightarrow> []))"

definition newEntry :: "IndexState \<Rightarrow> KeyUtils \<Rightarrow> PartitionID \<Rightarrow> string \<Rightarrow> string \<Rightarrow> Batch" where
  "newEntry s ku partId ni niv =
     (if ni = [] then []
      else (case s of
              Normal \<Rightarrow> [BatchPut ni niv]
            | Rebuilding \<Rightarrow> [BatchPut (modifyOperationKey ku partId ni) niv]
            | Locked \<Rightarrow> []))"

definition indexVal_of :: "'e World \<Rightarrow> 'e Schema \<Rightarrow> RowReader \<Rightarrow> string" where
  "indexVal_of w schema nReader =
     (case ttlValue (row w) schema nReader of Some v \<Rightarrow> indexVal (keys w) v | None \<Rightarrow> [])"

text \<open>
  The entries of one index: those of the old row, if there is one, then those of the new
  row, read through \<open>mkReader\<close>.
\<close>

definition indexDelta ::
  "'e World \<Rightarrow> GraphSpaceID \<Rightarrow> PartitionID \<Rightarrow> 'e NodeState \<Rightarrow> bool \<Rightarrow> (RowReader \<Rightarrow> string)
   \<Rightarrow> RowReader option \<Rightarrow> Batch" where
  "indexDelta w space partId st matches ikey mkReader =
     (if matches then
        (case (if val' st = [] then None else reader' st) of
           None \<Rightarrow> []
         | Some r \<Rightarrow> oldEntry (getIndexState (env' w) space partId) (keys w) partId (ikey r))
        @ (case mkReader of
             None \<Rightarrow> []
           | Some nReader \<Rightarrow>
               newEntry (getIndexState (env' w) space partId) (keys w) partId (ikey nReader)
                 (indexVal_of w (schema' st) nReader))
      else [])"



section \<open>A concrete environment\<close>

text \<open>
  Modelled from the spec: the expression engine is an external collaborator, a pure function
  over a property context. This instance has constants, property references and integer
  addition; \<open>exDecode\<close> knows the encoded expressions of the scenarios below.
\<close>

datatype Expr = Const Value | TagProp string string | EdgeProp string string | Add Expr Expr

fun exEval :: "Expr \<Rightarrow> StorageExpressionContext \<Rightarrow> Value" where
  "exEval (Const v) c = v"
| "exEval (TagProp s p) c = (case tagFilters c (s, p) of Some v \<Rightarrow> v | None \<Rightarrow> kEmpty)"
| "exEval (EdgeProp s p) c = (case edgeFilters c (s, p) of Some v \<Rightarrow> v | None \<Rightarrow> kEmpty)"
| "exEval (Add a b) c =
     (case (exEval a c, exEval b c) of
        (VInt x, VInt y) \<Rightarrow> VInt (x + y)
      | _ \<Rightarrow> kNullValue)"

definition exDecode :: "string \<Rightarrow> Expr option" where
  "exDecode s =
     map_of [(''4'', Const (VInt 4)),
             (''b'', Const (VStr ''b'')),
             (''a'', TagProp ''t'' ''a''),
             (''x+1'', Add (TagProp ''t'' ''x'') (Const (VInt 1)))] s"

text \<open>
  A row codec for the scenarios: a row is the sequence of \<open>name=value;\<close> of its columns,
  an integer in unary, a string after \<open>S\<close>, null as \<open>N\<close>.
\<close>

fun encValue :: "Value \<Rightarrow> string" where
  "encValue (VInt i) = (if 0 \<le> i then CHR ''I'' else CHR ''J'') # replicate (nat \<bar>i\<bar>) CHR ''1''"
| "encValue (VStr s) = CHR ''S'' # s"
| "encValue (VBool b) = (if b then ''T'' else ''F'')"
| "encValue kNullValue = ''N''"
| "encValue kEmpty = ''E''"

fun decValue :: "string \<Rightarrow> Value option" where
  "decValue [] = None"
| "decValue (t # s) =
     (if t = CHR ''I'' then Some (VInt (int (length s)))
      else if t = CHR ''J'' then Some (VInt (- int (length s)))
      else if t = CHR ''S'' then Some (VStr s)
      else if t = CHR ''T'' then Some (VBool True)
      else if t = CHR ''F'' then Some (VBool False)
      else if t = CHR ''N'' then Some kNullValue
      else None)"

fun splitOn :: "char \<Rightarrow> string \<Rightarrow> string list" where
  "splitOn c [] = [[]]"
| "splitOn c (x # xs) =
     (if x = c then [] # splitOn c xs
      else (case splitOn c xs of y # ys \<Rightarrow> (x # y) # ys | [] \<Rightarrow> [[x]]))"

fun encRow :: "'e Field list \<Rightarrow> (string \<times> Value) list \<Rightarrow> string option" where
  "encRow [] props = Some []"
| "encRow (f # fs) props =
     (case map_of props (name f) of
        None \<Rightarrow> None
      | Some v \<Rightarrow>
          (case encRow fs props of
             None \<Rightarrow> None
           | Some s \<Rightarrow> Some (name f @ ''='' @ encValue v @ '';'' @ s)))"

fun findCol :: "string list \<Rightarrow> string \<Rightarrow> Value option" where
  "findCol [] n = None"
| "findCol (ch # chs) n =
     (case splitOn CHR ''='' ch of
        [k, v] \<Rightarrow> if k = n then decValue v else findCol chs n
      | _ \<Rightarrow> findCol chs n)"

definition readCol :: "RowReader \<Rightarrow> string \<Rightarrow> Value option" where
  "readCol r n = findCol (splitOn CHR '';'' (getData r)) n"

fun allSome :: "'a option list \<Rightarrow> 'a list option" where
  "allSome [] = Some []"
| "allSome (None # xs) = None"
| "allSome (Some x # xs) = (case allSome xs of None \<Rightarrow> None | Some ys \<Rightarrow> Some (x # ys))"

definition exRow :: "Expr RowCollab" where
  "exRow =
     \<lparr>decode = exDecode,
      eval = exEval,
      readValue = (\<lambda>r n schema.
         case readCol r n of
           Some v \<Rightarrow> Some v
         | None \<Rightarrow> (case field schema n of
                      None \<Rightarrow> None
                    | Some f \<Rightarrow> if nullable f then Some kNullValue else None)),
      setValue = (\<lambda>schema n v. if field schema n = None then E_OTHER 1 else SUCCEEDED),
      finish = (\<lambda>schema props.
         case encRow schema props of None \<Rightarrow> (E_OTHER 2, []) | Some s \<Rightarrow> (SUCCEEDED, s)),
      getTagPropReader = (\<lambda>space tagId s. if s = [] then None else Some (RowReader s)),
      getEdgePropReader = (\<lambda>space edgeType s. if s = [] then None else Some (RowReader s)),
      ttlValue = (\<lambda>schema r. None)\<rparr>"

definition exKeys :: KeyUtils where
  "exKeys =
     \<lparr>NebulaKeyUtils_vertexKey = (\<lambda>vIdLen partId vId tagId. ''v:'' @ vId),
      NebulaKeyUtils_edgeKey = (\<lambda>vIdLen partId src t rank dst. ''e:'' @ src @ ''>'' @ dst),
      collectIndexValues = (\<lambda>r fs. allSome (map (readCol r) fs)),
      vertexIndexKey = (\<lambda>vIdLen partId indexId vId vs. ''i:'' @ concat (map encValue vs) @ '':'' @ vId),
      edgeIndexKey = (\<lambda>vIdLen partId indexId src rank dst vs.
         ''i:'' @ concat (map encValue vs) @ '':'' @ src @ ''>'' @ dst),
      indexVal = (\<lambda>v. []),
      deleteOperationKey = (\<lambda>partId. ''op:del''),
      modifyOperationKey = (\<lambda>partId k. ''op:mod:'' @ k)\<rparr>"

text \<open>The environment reports one index state; the KV layer accepts every batch.\<close>

definition exEnv :: "IndexState \<Rightarrow> StorageEnv" where
  "exEnv s =
     \<lparr>getIndexState = (\<lambda>space partId. s),
      appendReply = (\<lambda>space partId b. SUCCEEDED),
      txnMan' = None,
      enableToss = (\<lambda>space. False)\<rparr>"

definition exWorld :: "IndexState \<Rightarrow> Expr World" where
  "exWorld s = \<lparr>row = exRow, keys = exKeys, env' = exEnv s\<rparr>"

text \<open>
  The same environment with a transaction manager that is enabled for every space and
  answers every closure with \<open>E_UNKNOWN\<close>, writing nothing.
\<close>

definition exTossWorld :: "Expr World" where
  "exTossWorld =
     \<lparr>row = exRow, keys = exKeys,
      env' = \<lparr>getIndexState = (\<lambda>space partId. Normal),
              appendReply = (\<lambda>space partId b. SUCCEEDED),
              txnMan' = Some (\<lambda>vIdLen space partId edgeKey b kv. (Some E_UNKNOWN, kv)),
              enableToss = (\<lambda>space. True)\<rparr>\<rparr>"

text \<open>Tag \<open>person\<close> (id 10) with \<open>name\<close> and a nullable \<open>age\<close>, and an index on \<open>age\<close>.\<close>

definition exPerson :: "Expr Schema" where
  "exPerson = [\<lparr>name = ''name'', defaultValue = None, nullable = False\<rparr>,
               \<lparr>name = ''age'', defaultValue = None, nullable = True\<rparr>]"

definition exTagContext :: "Expr TagContext" where
  "exTagContext = \<lparr>tag_schemas' = [10 \<mapsto> [Some exPerson]], tagNames' = [10 \<mapsto> ''person'']\<rparr>"

definition exIndex :: IndexItem where
  "exIndex = \<lparr>index_id = 7, index_name = ''i_age'', schema_id = tag_id 10, index_fields = [''age'']\<rparr>"

text \<open>An index on a column that no row of the tag stores: its index key is empty.\<close>

definition exIndexNick :: IndexItem where
  "exIndexNick = \<lparr>index_id = 9, index_name = ''i_nick'', schema_id = tag_id 10,
                  index_fields = [''nick'']\<rparr>"

text \<open>Edge \<open>knows\<close> (type 5, both directions named) with \<open>since\<close>, default 2.\<close>

definition exKnows :: "Expr Schema" where
  "exKnows = [\<lparr>name = ''since'', defaultValue = Some (Const (VInt 2)), nullable = False\<rparr>]"

definition exEdgeContext :: "Expr EdgeContext" where
  "exEdgeContext = \<lparr>edge_schemas' = [5 \<mapsto> [Some exKnows]],
                    edgeNames' = [5 \<mapsto> ''knows'', - 5 \<mapsto> ''knows'']\<rparr>"

definition exPlan :: PlanContext where
  "exPlan = \<lparr>spaceId' = 1, vIdLen' = 8, tagId' = 10, edgeType' = 5, insert' = False\<rparr>"

definition exCtx0 :: StorageExpressionContext where
  "exCtx0 = \<lparr>ctx_reader = None, tagFilters = Map.empty, edgeFilters = Map.empty\<rparr>"

text \<open>The stored vertex \<open>{name: "a", age: 3}\<close> and what the upstream nodes leave for it.\<close>

definition exOldRow :: string where
  "exOldRow = ''name=Sa;age=I111;''"

definition exOldCtx :: StorageExpressionContext where
  "exOldCtx =
     \<lparr>ctx_reader = Some (RowReader exOldRow),
      tagFilters = [(''person'', ''name'') \<mapsto> VStr ''a'', (''person'', ''age'') \<mapsto> VInt 3],
      edgeFilters = Map.empty\<rparr>"

definition exUpFound :: Upstream where
  "exUpFound = \<lparr>up_ret = SUCCEEDED, resultStat' = NORMAL, filter_valid = True,
                filter_reader = Some (RowReader exOldRow), filter_key = ''v:00000001'',
                up_expCtx = exOldCtx\<rparr>"

definition exUpFiltered :: Upstream where
  "exUpFiltered = exUpFound\<lparr>resultStat' := FILTER_OUT\<rparr>"

definition exUpMissing :: Upstream where
  "exUpMissing = \<lparr>up_ret = SUCCEEDED, resultStat' = NORMAL, filter_valid = False,
                  filter_reader = None, filter_key = [], up_expCtx = exCtx0\<rparr>"

text \<open>\<open>set age = 4\<close>, \<open>set name = "b"\<close> as an upsert, and an update that does not decode.\<close>

definition exSetAge :: UpdateNode where
  "exSetAge = \<lparr>indexes' = [exIndex], updatedProps' = [\<lparr>up_name = ''age'', up_value = ''4''\<rparr>],
               insertable' = False, depPropMap' = [(''age'', [])]\<rparr>"

definition exSetAgeNick :: UpdateNode where
  "exSetAgeNick = exSetAge\<lparr>indexes' := [exIndexNick]\<rparr>"

definition exSetAgeBad :: UpdateNode where
  "exSetAgeBad = exSetAge\<lparr>updatedProps' := [\<lparr>up_name = ''age'', up_value = ''?''\<rparr>]\<rparr>"

definition exUpsertName :: UpdateNode where
  "exUpsertName = \<lparr>indexes' = [exIndex], updatedProps' = [\<lparr>up_name = ''name'', up_value = ''b''\<rparr>],
                   insertable' = True, depPropMap' = [(''name'', [])]\<rparr>"

definition exUpsertAge :: UpdateNode where
  "exUpsertAge = \<lparr>indexes' = [exIndex], updatedProps' = [\<lparr>up_name = ''age'', up_value = ''4''\<rparr>],
                  insertable' = True, depPropMap' = [(''age'', [])]\<rparr>"

definition exEdgeKey :: EdgeKey where
  "exEdgeKey = \<lparr>ek_src = ''00000001'', ek_edge_type = 5, ek_ranking = 0, ek_dst = ''00000002''\<rparr>"

definition exEdgeNode :: UpdateNode where
  "exEdgeNode = \<lparr>indexes' = [], updatedProps' = [], insertable' = True, depPropMap' = []\<rparr>"

text \<open>The stored edge \<open>{since: 1}\<close>, an index on \<open>since\<close>, and \<open>set since = 4\<close>.\<close>

definition exEdgeIndex :: IndexItem where
  "exEdgeIndex = \<lparr>index_id = 8, index_name = ''i_since'', schema_id = edge_type 5,
                  index_fields = [''since'']\<rparr>"

definition exUpEdgeFound :: Upstream where
  "exUpEdgeFound = \<lparr>up_ret = SUCCEEDED, resultStat' = NORMAL, filter_valid = True,
                    filter_reader = Some (RowReader ''since=I1;''),
                    filter_key = ''e:00000001>00000002'', up_expCtx = exCtx0\<rparr>"

definition exSetSince :: UpdateNode where
  "exSetSince = \<lparr>indexes' = [exEdgeIndex], updatedProps' = [\<lparr>up_name = ''since'', up_value = ''4''\<rparr>],
                 insertable' = False, depPropMap' = [(''since'', [])]\<rparr>"

text \<open>A context of a tag \<open>t\<close> with \<open>a = 5\<close> and a prior \<open>x = 0\<close>.\<close>

definition exCtxA :: StorageExpressionContext where
  "exCtxA = \<lparr>ctx_reader = None,
             tagFilters = [(''t'', ''a'') \<mapsto> VInt 5, (''t'', ''x'') \<mapsto> VInt 0],
             edgeFilters = Map.empty\<rparr>"

section \<open>Lemmas\<close>

subsection \<open>The index loop\<close>

lemma oldIndexOp_Some:
  "oldIndexOp w space partId oi = Some b \<Longrightarrow> oi \<noteq> [] \<Longrightarrow>
     oldEntry (getIndexState (env' w) space partId) (keys w) partId oi = [b]"
  by (cases "getIndexState (env' w) space partId")
     (auto simp: oldIndexOp_def oldEntry_def checkRebuilding_def checkIndexLocked_def Let_def)

lemma newIndexOp_Some:
  "newIndexOp w space partId ni niv = Some b \<Longrightarrow> ni \<noteq> [] \<Longrightarrow>
     newEntry (getIndexState (env' w) space partId) (keys w) partId ni niv = [b]"
  by (cases "getIndexState (env' w) space partId")
     (auto simp: newIndexOp_def newEntry_def checkRebuilding_def checkIndexLocked_def Let_def)

lemma indexStep_Some:
  assumes "indexStep w space partId st matches ikey mkReader (nr0, b0) = Some (nr1, b1)"
    and "nr0 = None \<or> nr0 = mkReader"
  shows "b1 = b0 @ indexDelta w space partId st matches ikey mkReader
         \<and> (nr1 = None \<or> nr1 = mkReader)"
  using assms
  by (auto simp: indexStep_def indexDelta_def indexVal_of_def Let_def oldEntry_def[where oi="[]"]
        newEntry_def[where ni="[]"]
      split: if_splits option.splits dest!: oldIndexOp_Some newIndexOp_Some)

lemma foldOption_indexStep_Some:
  assumes "foldOption (\<lambda>index. indexStep w space partId st (m index) (ik index) mkReader) idxs
             (nr0, b0) = Some (nr1, b1)"
    and "nr0 = None \<or> nr0 = mkReader"
  shows "b1 = b0 @ concat (map (\<lambda>index. indexDelta w space partId st (m index) (ik index) mkReader) idxs)"
  using assms
proof (induction idxs arbitrary: nr0 b0)
  case Nil
  then show ?case by simp
next
  case (Cons index idxs)
  from Cons.prems(1) obtain nr2 b2 where
    step: "indexStep w space partId st (m index) (ik index) mkReader (nr0, b0) = Some (nr2, b2)"
    and rest: "foldOption (\<lambda>index. indexStep w space partId st (m index) (ik index) mkReader) idxs
                 (nr2, b2) = Some (nr1, b1)"
    by (auto split: option.splits)
  from indexStep_Some[OF step Cons.prems(2)]
  have b2: "b2 = b0 @ indexDelta w space partId st (m index) (ik index) mkReader"
    and nr2: "nr2 = None \<or> nr2 = mkReader" by auto
  from Cons.IH[OF rest nr2] b2 show ?case by simp
qed


lemma indexStep_inv:
  "indexStep w space partId st matches ikey mkReader acc = Some acc1 \<Longrightarrow>
   fst acc = None \<or> fst acc = mkReader \<Longrightarrow> fst acc1 = None \<or> fst acc1 = mkReader"
  by (cases acc; cases acc1) (auto dest: indexStep_Some)


subsection \<open>Updates and defaults\<close>

lemma getProp_setProp [simp]:
  "getProp isEdge n p (setProp isEdge n q v c) = (if p = q then Some v else getProp isEdge n p c)"
  by (simp add: getProp_def setProp_def setTagProp_def setEdgeProp_def)

lemma applyUpdatedProps_append:
  "applyUpdatedProps w isEdge n (us @ vs) acc =
     (case applyUpdatedProps w isEdge n us acc of
        None \<Rightarrow> None
      | Some acc1 \<Rightarrow> applyUpdatedProps w isEdge n vs acc1)"
proof (induction us arbitrary: acc)
  case Nil
  show ?case by simp
next
  case (Cons u us)
  obtain props c where acc: "acc = (props, c)" by (cases acc)
  show ?case unfolding acc by (simp add: Cons.IH Let_def split: option.splits)
qed


lemma applyUpdatedProps_agree:
  "applyUpdatedProps w isEdge n us (props, c) = Some (props1, c1) \<Longrightarrow>
   \<forall>p\<in>S. getProp isEdge n p c = map_of props p \<and> map_of props p \<noteq> None \<Longrightarrow>
   \<forall>p\<in>S \<union> up_name ` set us. getProp isEdge n p c1 = map_of props1 p \<and> map_of props1 p \<noteq> None"
proof (induction us arbitrary: props c S)
  case Nil
  then show ?case by simp
next
  case (Cons u us)
  from Cons.prems(1) obtain ex where
    d: "decode (row w) (up_value u) = Some ex"
    and r: "applyUpdatedProps w isEdge n us
              (AList.update (up_name u) (eval (row w) ex c) props,
               setProp isEdge n (up_name u) (eval (row w) ex c) c) = Some (props1, c1)"
    by (auto simp: Let_def split: option.splits)
  have "\<forall>p\<in>insert (up_name u) S.
          getProp isEdge n p (setProp isEdge n (up_name u) (eval (row w) ex c) c)
            = map_of (AList.update (up_name u) (eval (row w) ex c) props) p
          \<and> map_of (AList.update (up_name u) (eval (row w) ex c) props) p \<noteq> None"
    using Cons.prems(2) by (simp add: update_conv')
  from Cons.IH[OF r this] show ?case by simp
qed


lemma field_None: "field schema p = None \<Longrightarrow> f \<in> set schema \<Longrightarrow> name f \<noteq> p"
  by (auto simp: field_def find_None_iff)












subsection \<open>Result codes per partition\<close>







subsection \<open>The executors\<close>

lemma MemoryLockGuard_single:
  "MemoryLockGuard table [k] = (if k \<in> set table then Inl k else Inr (k # table))"
  by simp


lemma tag_prepare_found:
  assumes "tag_prepare w tagContext node pc up partId vId = (pc1, Inr st)"
    and "filter_valid up" and "filter_reader up = Some r"
  shows "pc1 = pc \<and> reader' st = Some r \<and> val' st = getData r \<and> key' st = filter_key up"
  using assms
  by (auto simp: tag_prepare_def collTagProp_def initNode_def Let_def split: sum.splits prod.splits)


lemma tag_updateAndWriteBack_Some:
  assumes "tag_updateAndWriteBack w node pc st partId vId = Some (b, st1)"
  shows "\<exists>nVal. applyUpdatedProps w False (name' st) (updatedProps' node) (props' st, expCtx' st)
                  = Some (props' st1, expCtx' st1)
               \<and> finish (row w) (schema' st) (props' st1) = (SUCCEEDED, nVal)
               \<and> b = concat (map (\<lambda>index. indexDelta w (spaceId' pc) partId st
                                     (Some (tagId' pc) = get_tag_id (schema_id index))
                                     (\<lambda>r. tag_indexKey w pc partId vId r index)
                                     (getTagPropReader (row w) (spaceId' pc) (tagId' pc) nVal))
                                (indexes' node))
                     @ [BatchPut (key' st) nVal]"
proof -
  from assms obtain props c wRet nVal nReader batch where
    a: "applyUpdatedProps w False (name' st) (updatedProps' node) (props' st, expCtx' st) = Some (props, c)"
    and f: "finish (row w) (schema' st) props = (wRet, nVal)" and ok: "wRet = SUCCEEDED"
    and i: "tag_indexes w node pc st partId vId nVal = Some (nReader, batch)"
    and b: "b = batch @ [BatchPut (key' st) nVal]"
    and s: "st1 = st\<lparr>props' := props, expCtx' := c\<rparr>"
    by (auto simp: tag_updateAndWriteBack_def split: option.splits if_splits prod.splits)
  from i have "batch = [] @ concat (map (\<lambda>index. indexDelta w (spaceId' pc) partId st
                                     (Some (tagId' pc) = get_tag_id (schema_id index))
                                     (\<lambda>r. tag_indexKey w pc partId vId r index)
                                     (getTagPropReader (row w) (spaceId' pc) (tagId' pc) nVal))
                                (indexes' node))"
    unfolding tag_indexes_def by (rule foldOption_indexStep_Some) simp
  with a f ok b s show ?thesis by auto
qed

lemma tag_execute_cases:
  assumes free: "(spaceId' pc, partId, tagId' pc, vId) \<notin> set locks"
  shows "(events (UpdateTagNode_execute w tagContext node locks pc c0 up kv partId vId) = [RelNodeExecute]
          \<and> store (UpdateTagNode_execute w tagContext node locks pc c0 up kv partId vId) = kv)
       \<or> (\<exists>pc1 st b st1.
             up_ret up = SUCCEEDED \<and> resultStat' up = NORMAL
             \<and> tag_prepare w tagContext node pc up partId vId = (pc1, Inr st)
             \<and> tag_updateAndWriteBack w node pc1 st partId vId = Some (b, st1)
             \<and> UpdateTagNode_execute w tagContext node locks pc c0 up kv partId vId =
                 \<lparr>code = appendReply (env' w) (spaceId' pc1) partId b,
                  store = asyncAppendBatch (appendReply (env' w) (spaceId' pc1) partId b)
                            (spaceId' pc1) partId b kv,
                  events = [RelNodeExecute, AsyncAppendBatch (spaceId' pc1) partId b],
                  planCtx = pc1, ctx = expCtx' st1\<rparr>)"
proof -
  have "resultStat' up = NORMAL \<or> resultStat' up = ILLEGAL_DATA \<or> resultStat' up = FILTER_OUT"
    by (cases "resultStat' up") auto
  then show ?thesis
    using free
    by (auto simp: UpdateTagNode_execute_def leave_def Let_def
        split: sum.splits prod.splits option.splits)
qed

lemma tag_execute_conflict:
  assumes "(spaceId' pc, partId, tagId' pc, vId) \<in> set locks"
  shows "UpdateTagNode_execute w tagContext node locks pc c0 up kv partId vId =
           \<lparr>code = E_STORAGE_QUERY_CONCURRENT_MODIFY, store = kv,
            events = [LogVertexConflict (spaceId' pc, partId, tagId' pc, vId)],
            planCtx = pc, ctx = c0\<rparr>"
  using assms by (simp add: UpdateTagNode_execute_def leave_def)



lemma edge_prepare_found:
  assumes "edge_prepare w edgeContext node pc up partId edgeKey = (pc1, Inr st)"
    and "filter_valid up" and "filter_reader up = Some r"
  shows "pc1 = pc \<and> reader' st = Some r \<and> val' st = getData r \<and> key' st = filter_key up"
  using assms
  by (auto simp: edge_prepare_def collEdgeProp_def initNode_def Let_def split: sum.splits prod.splits)



lemma edge_updateAndWriteBack_Some:
  assumes "edge_updateAndWriteBack w node pc st partId edgeKey = Some (b, st1)"
  shows "\<exists>nVal. applyUpdatedProps w True (name' st) (updatedProps' node) (props' st, expCtx' st)
                  = Some (props' st1, expCtx' st1)
               \<and> finish (row w) (schema' st) (props' st1) = (SUCCEEDED, nVal)
               \<and> b = concat (map (\<lambda>index. indexDelta w (spaceId' pc) partId st
                                     (Some (edgeType' pc) = get_edge_type (schema_id index))
                                     (\<lambda>r. edge_indexKey w pc partId r edgeKey index)
                                     (getEdgePropReader (row w) (spaceId' pc) (abs (edgeType' pc)) nVal))
                                (indexes' node))
                     @ [BatchPut (key' st) nVal]"
proof -
  from assms obtain props c wRet nVal nReader batch where
    a: "applyUpdatedProps w True (name' st) (updatedProps' node) (props' st, expCtx' st) = Some (props, c)"
    and f: "finish (row w) (schema' st) props = (wRet, nVal)" and ok: "wRet = SUCCEEDED"
    and i: "edge_indexes w node pc st partId edgeKey nVal = Some (nReader, batch)"
    and b: "b = batch @ [BatchPut (key' st) nVal]"
    and s: "st1 = st\<lparr>props' := props, expCtx' := c\<rparr>"
    by (auto simp: edge_updateAndWriteBack_def split: option.splits if_splits prod.splits)
  from i have "batch = [] @ concat (map (\<lambda>index. indexDelta w (spaceId' pc) partId st
                                     (Some (edgeType' pc) = get_edge_type (schema_id index))
                                     (\<lambda>r. edge_indexKey w pc partId r edgeKey index)
                                     (getEdgePropReader (row w) (spaceId' pc) (abs (edgeType' pc)) nVal))
                                (indexes' node))"
    unfolding edge_indexes_def by (rule foldOption_indexStep_Some) simp
  with a f ok b s show ?thesis by auto
qed

lemma edge_op_cases:
  "(op_batch (edge_op w edgeContext node pc up partId edgeKey) = None)
   \<or> (\<exists>pc1 st b st1.
         up_ret up = SUCCEEDED \<and> resultStat' up = NORMAL \<and> ek_edge_type edgeKey = edgeType' pc
         \<and> edge_prepare w edgeContext node pc up partId edgeKey = (pc1, Inr st)
         \<and> edge_updateAndWriteBack w node pc1 st partId edgeKey = Some (b, st1)
         \<and> edge_op w edgeContext node pc up partId edgeKey =
             \<lparr>op_batch = Some b, exeResult' = SUCCEEDED, op_planCtx = pc1, op_ctx = expCtx' st1\<rparr>)"
proof -
  have "resultStat' up = NORMAL \<or> resultStat' up = ILLEGAL_DATA \<or> resultStat' up = FILTER_OUT"
    by (cases "resultStat' up") auto
  then show ?thesis
    by (auto simp: edge_op_def noBatch_def split: sum.splits prod.splits option.splits)
qed

lemma edge_execute_direct:
  assumes "(spaceId' pc, partId, ek_src edgeKey, ek_edge_type edgeKey, ek_ranking edgeKey,
            ek_dst edgeKey) \<notin> set locks"
    and "toss (env' w) (spaceId' pc) = None"
  shows "UpdateEdgeNode_execute w edgeContext node locks pc c0 up kv partId edgeKey =
     (let r = edge_op w edgeContext node pc up partId edgeKey
      in case op_batch r of
           None \<Rightarrow> \<lparr>code = exeResult' r, store = kv, events = [RelNodeExecute],
                     planCtx = op_planCtx r, ctx = op_ctx r\<rparr>
         | Some b \<Rightarrow>
             \<lparr>code = appendReply (env' w) (spaceId' pc) partId b,
              store = asyncAppendBatch (appendReply (env' w) (spaceId' pc) partId b)
                        (spaceId' pc) partId b kv,
              events = [RelNodeExecute, AsyncAppendBatch (spaceId' pc) partId b],
              planCtx = op_planCtx r, ctx = op_ctx r\<rparr>)"
  using assms
  by (simp add: UpdateEdgeNode_execute_def leave_def Let_def split: option.splits)

lemma edge_execute_conflict:
  assumes "(spaceId' pc, partId, ek_src edgeKey, ek_edge_type edgeKey, ek_ranking edgeKey,
            ek_dst edgeKey) \<in> set locks"
  shows "UpdateEdgeNode_execute w edgeContext node locks pc c0 up kv partId edgeKey =
           \<lparr>code = E_STORAGE_QUERY_CONCURRENT_MODIFY, store = kv,
            events = [LogEdgeConflict (spaceId' pc, partId, ek_src edgeKey, ek_edge_type edgeKey,
                                       ek_ranking edgeKey, ek_dst edgeKey)],
            planCtx = pc, ctx = c0\<rparr>"
  using assms by (simp add: UpdateEdgeNode_execute_def leave_def)

lemmas ex_defs = exWorld_def exTossWorld_def exRow_def exKeys_def exEnv_def exPerson_def
  exTagContext_def exIndex_def exIndexNick_def exKnows_def exEdgeContext_def exPlan_def exCtx0_def
  exOldRow_def exOldCtx_def exUpFound_def exUpFiltered_def exUpMissing_def exSetAge_def
  exSetAgeNick_def exSetAgeBad_def exUpsertName_def exUpsertAge_def exEdgeKey_def exEdgeNode_def
  exEdgeIndex_def exUpEdgeFound_def exSetSince_def exCtxA_def exDecode_def

lemmas model_defs = UpdateTagNode_execute_def tag_prepare_def collTagProp_def insertTagProps_def
  getLatestTagSchemaAndName_def tag_updateAndWriteBack_def tag_indexes_def tag_indexKey_def
  indexStep_def oldIndexOp_def newIndexOp_def checkRebuilding_def checkIndexLocked_def
  setValues_def initNode_def leave_def readCol_def field_def checkPropsAndGetDefaultValue_def
  getDefaultOrNullValue_def checkField_def UpdateEdgeNode_execute_def edge_op_def noBatch_def
  edge_prepare_def collEdgeProp_def insertEdgeProps_def getLatestEdgeSchemaAndName_def
  edge_updateAndWriteBack_def edge_indexes_def edge_indexKey_def toss_def
  UpdateResNode_execute_def asyncAppendBatch_def

subsection \<open>Index entries per index state\<close>



lemma tag_updateAndWriteBack_indexes:
  assumes "tag_updateAndWriteBack w node pc st partId vId = Some (b, st1)"
  shows "\<exists>nVal nReader batch.
           finish (row w) (schema' st) (props' st1) = (SUCCEEDED, nVal)
           \<and> tag_indexes w node pc st partId vId nVal = Some (nReader, batch)
           \<and> b = batch @ [BatchPut (key' st) nVal]"
  using assms
  by (auto simp: tag_updateAndWriteBack_def split: option.splits if_splits prod.splits)

lemma edge_updateAndWriteBack_indexes:
  assumes "edge_updateAndWriteBack w node pc st partId edgeKey = Some (b, st1)"
  shows "\<exists>nVal nReader batch.
           finish (row w) (schema' st) (props' st1) = (SUCCEEDED, nVal)
           \<and> edge_indexes w node pc st partId edgeKey nVal = Some (nReader, batch)
           \<and> b = batch @ [BatchPut (key' st) nVal]"
  using assms
  by (auto simp: edge_updateAndWriteBack_def split: option.splits if_splits prod.splits)

lemma indexStep_reader:
  assumes "indexStep w space partId st matches ikey mkReader acc = Some acc1"
    and "matches" and "fst acc = None \<or> fst acc = mkReader"
  shows "mkReader \<noteq> None"
  using assms by (auto simp: indexStep_def Let_def split: option.splits if_splits)

lemma foldOption_indexStep_reader:
  assumes "foldOption (\<lambda>index. indexStep w space partId st (m index) (ik index) mkReader) idxs acc
             = Some res"
    and "index \<in> set idxs" and "m index" and "fst acc = None \<or> fst acc = mkReader"
  shows "mkReader \<noteq> None"
  using assms(1,2,4)
proof (induction idxs arbitrary: acc)
  case Nil
  then show ?case by simp
next
  case (Cons a idxs)
  from Cons.prems(1) obtain acc1 where
    s: "indexStep w space partId st (m a) (ik a) mkReader acc = Some acc1"
    and r: "foldOption (\<lambda>index. indexStep w space partId st (m index) (ik index) mkReader) idxs acc1
              = Some res"
    by (auto split: option.splits)
  show ?case
  proof (cases "a = index")
    case True
    with s assms(3) Cons.prems(3) show ?thesis by (auto dest: indexStep_reader)
  next
    case False
    with Cons.prems(2) have "index \<in> set idxs" by simp
    from Cons.IH[OF r this indexStep_inv[OF s Cons.prems(3)]] show ?thesis .
  qed
qed


lemma indexDelta_Rebuilding_shape:
  assumes "getIndexState (env' w) space partId = Rebuilding"
    and "x \<in> set (indexDelta w space partId st matches ikey mkReader)"
  shows "\<exists>k v. x = BatchPut (deleteOperationKey (keys w) partId) v
               \<or> x = BatchPut (modifyOperationKey (keys w) partId k) v"
  using assms
  by (auto simp: indexDelta_def oldEntry_def newEntry_def split: option.splits if_splits)

lemma indexDelta_Rebuilding_old:
  assumes "getIndexState (env' w) space partId = Rebuilding" and "matches"
    and "val' st \<noteq> []" and "reader' st = Some rd" and "ikey rd \<noteq> []"
  shows "BatchPut (deleteOperationKey (keys w) partId) (ikey rd)
           \<in> set (indexDelta w space partId st matches ikey mkReader)"
  using assms by (auto simp: indexDelta_def oldEntry_def)

lemma indexDelta_Rebuilding_new:
  assumes "getIndexState (env' w) space partId = Rebuilding" and "matches"
    and "mkReader = Some nr" and "ikey nr \<noteq> []"
  shows "BatchPut (modifyOperationKey (keys w) partId (ikey nr)) (indexVal_of w (schema' st) nr)
           \<in> set (indexDelta w space partId st matches ikey mkReader)"
  using assms by (auto simp: indexDelta_def newEntry_def)

subsection \<open>Committed batches\<close>

lemma tag_execute_committed:
  assumes "AsyncAppendBatch sp p b \<in> set (events (UpdateTagNode_execute w tagContext node locks pc c0 up kv partId vId))"
  shows "\<exists>pc1 st st1. up_ret up = SUCCEEDED \<and> resultStat' up = NORMAL
           \<and> tag_prepare w tagContext node pc up partId vId = (pc1, Inr st)
           \<and> tag_updateAndWriteBack w node pc1 st partId vId = Some (b, st1)"
proof (cases "(spaceId' pc, partId, tagId' pc, vId) \<in> set locks")
  case True
  with assms show ?thesis by (simp add: tag_execute_conflict)
next
  case False
  from tag_execute_cases[OF False, of w tagContext node c0 up kv] assms
  show ?thesis by auto
qed

lemma edge_execute_committed:
  assumes "AsyncAppendBatch sp p b \<in> set (events (UpdateEdgeNode_execute w edgeContext node locks pc c0 up kv partId edgeKey))"
  shows "\<exists>pc1 st st1. up_ret up = SUCCEEDED \<and> resultStat' up = NORMAL
           \<and> ek_edge_type edgeKey = edgeType' pc
           \<and> edge_prepare w edgeContext node pc up partId edgeKey = (pc1, Inr st)
           \<and> edge_updateAndWriteBack w node pc1 st partId edgeKey = Some (b, st1)"
proof (cases "(spaceId' pc, partId, ek_src edgeKey, ek_edge_type edgeKey, ek_ranking edgeKey,
               ek_dst edgeKey) \<in> set locks")
  case True
  with assms show ?thesis by (simp add: edge_execute_conflict)
next
  case False
  show ?thesis
  proof (cases "toss (env' w) (spaceId' pc)")
    case None
    note d = edge_execute_direct[OF False None, of edgeContext node c0 up kv]
    from edge_op_cases[of w edgeContext node pc up partId edgeKey] assms
    show ?thesis unfolding d by (auto simp: Let_def)
  next
    case (Some m)
    with assms False show ?thesis
      by (auto simp: UpdateEdgeNode_execute_def Let_def split: prod.splits)
  qed
qed

text \<open>The shape of a batch built while the index is rebuilding.\<close>

lemma rebuilding_batch:
  assumes st: "getIndexState (env' w) space partId = Rebuilding"
    and loop: "foldOption (\<lambda>index. indexStep w space partId st (m index) (ik index) mkReader) idxs
                 (None, []) = Some (nReader, batch)"
    and idx: "index \<in> set idxs" "m index"
    and old: "val' st \<noteq> []" "reader' st = Some rd" "ik index rd \<noteq> []"
  shows "BatchPut (deleteOperationKey (keys w) partId) (ik index rd) \<in> set batch
       \<and> (\<exists>nr. mkReader = Some nr
              \<and> (ik index nr \<noteq> [] \<longrightarrow>
                    (\<exists>niv. BatchPut (modifyOperationKey (keys w) partId (ik index nr)) niv \<in> set batch)))
       \<and> (\<forall>x\<in>set batch. \<exists>k v. x = BatchPut (deleteOperationKey (keys w) partId) v
                                  \<or> x = BatchPut (modifyOperationKey (keys w) partId k) v)"
proof -
  have b: "batch = concat (map (\<lambda>index. indexDelta w space partId st (m index) (ik index) mkReader) idxs)"
    using foldOption_indexStep_Some[OF loop] by simp
  have "mkReader \<noteq> None"
    using foldOption_indexStep_reader[OF loop idx] by simp
  then obtain nr where nr: "mkReader = Some nr" by auto
  have 1: "BatchPut (deleteOperationKey (keys w) partId) (ik index rd) \<in> set batch"
    unfolding b using indexDelta_Rebuilding_old[where ikey="ik index" and matches="m index" and mkReader=mkReader,
        OF st idx(2) old] idx(1) by auto
  have 2: "ik index nr \<noteq> [] \<longrightarrow>
             (\<exists>niv. BatchPut (modifyOperationKey (keys w) partId (ik index nr)) niv \<in> set batch)"
    unfolding b using indexDelta_Rebuilding_new[where ikey="ik index" and matches="m index" and st=st,
        OF st idx(2) nr] idx(1) by auto
  have 3: "\<forall>x\<in>set batch. \<exists>k v. x = BatchPut (deleteOperationKey (keys w) partId) v
                                  \<or> x = BatchPut (modifyOperationKey (keys w) partId k) v"
    unfolding b using indexDelta_Rebuilding_shape[OF st] by auto
  from 1 2 3 nr show ?thesis by blast
qed


subsection \<open>The insert path\<close>










subsection \<open>The scenarios, evaluated\<close>





lemma ex_state: "getIndexState (env' (exWorld s)) space partId = s"
  by (simp add: exWorld_def exEnv_def)


lemma ex_tag_rebuilding:
  "events (UpdateTagNode_execute (exWorld Rebuilding) exTagContext exSetAge [] exPlan exCtx0 exUpFound kv 1
            ''00000001'') =
     [RelNodeExecute,
      AsyncAppendBatch 1 1 [BatchPut ''op:del'' ''i:I111:00000001'',
                            BatchPut ''op:mod:i:I1111:00000001'' [],
                            BatchPut ''v:00000001'' ''name=Sa;age=I1111;'']]"
  by (simp add: model_defs ex_defs Let_def eval_nat_numeral)

lemma ex_edge_rebuilding:
  "events (UpdateEdgeNode_execute (exWorld Rebuilding) exEdgeContext exSetSince [] exPlan exCtx0
             exUpEdgeFound kv 1 exEdgeKey) =
     [RelNodeExecute,
      AsyncAppendBatch 1 1 [BatchPut ''op:del'' ''i:I1:00000001>00000002'',
                            BatchPut ''op:mod:i:I1111:00000001>00000002'' [],
                            BatchPut ''e:00000001>00000002'' ''since=I1111;'']]"
  by (simp add: model_defs ex_defs Let_def eval_nat_numeral)

lemma ex_tag_indexKey_old:
  "tag_indexKey (exWorld s) exPlan 1 ''00000001'' (RowReader exOldRow) exIndex = ''i:I111:00000001''"
  by (simp add: tag_indexKey_def readCol_def ex_defs eval_nat_numeral)

lemma ex_edge_indexKey_old:
  "edge_indexKey (exWorld s) exPlan 1 (RowReader ''since=I1;'') exEdgeKey exEdgeIndex
     = ''i:I1:00000001>00000002''"
  by (simp add: edge_indexKey_def readCol_def ex_defs eval_nat_numeral)







lemma ex_decode_a: "decode (row (exWorld s)) ''a'' = Some (TagProp ''t'' ''a'')"
  and ex_decode_x1: "decode (row (exWorld s)) ''x+1'' = Some (Add (TagProp ''t'' ''x'') (Const (VInt 1)))"
  and ex_eval: "eval (row (exWorld s)) = exEval"
  by (simp_all add: exWorld_def exRow_def exDecode_def)

lemma ex_set_x_y:
  assumes "tagFilters c (''t'', ''a'') = Some (VInt 5)"
  shows "\<exists>props1 c1.
           applyUpdatedProps (exWorld s) False ''t''
             [\<lparr>up_name = ''x'', up_value = ''a''\<rparr>, \<lparr>up_name = ''y'', up_value = ''x+1''\<rparr>] (props, c)
             = Some (props1, c1)
           \<and> map_of props1 ''x'' = Some (VInt 5) \<and> map_of props1 ''y'' = Some (VInt 6)
           \<and> tagFilters c1 (''t'', ''x'') = Some (VInt 5) \<and> tagFilters c1 (''t'', ''y'') = Some (VInt 6)"
  using assms
  by (simp add: ex_decode_a ex_decode_x1 ex_eval Let_def setProp_def setTagProp_def update_conv')

lemma ex_apply_x:
  "applyUpdatedProps (exWorld s) False ''t'' [\<lparr>up_name = ''x'', up_value = ''a''\<rparr>]
     ([(''x'', VInt 0)], exCtxA) = Some ([(''x'', VInt 5)], setProp False ''t'' ''x'' (VInt 5) exCtxA)"
  by (simp add: ex_decode_a ex_eval Let_def exCtxA_def)

lemma ex_apply_x_y:
  "applyUpdatedProps (exWorld s) False ''t''
     [\<lparr>up_name = ''x'', up_value = ''a''\<rparr>, \<lparr>up_name = ''y'', up_value = ''x+1''\<rparr>]
     ([(''x'', VInt 0)], exCtxA)
   = Some ([(''x'', VInt 5), (''y'', VInt 6)],
           setProp False ''t'' ''y'' (VInt 6) (setProp False ''t'' ''x'' (VInt 5) exCtxA))"
  by (simp add: ex_decode_a ex_decode_x1 ex_eval Let_def exCtxA_def setProp_def setTagProp_def)

lemma ex_tag_write:
  "\<exists>st b st1. tag_prepare (exWorld Normal) exTagContext exSetAge exPlan exUpFound 1 ''00000001''
                 = (exPlan, Inr st)
             \<and> tag_updateAndWriteBack (exWorld Normal) exSetAge exPlan st 1 ''00000001'' = Some (b, st1)
             \<and> props' st1 = [(''name'', VStr ''a''), (''age'', VInt 4)]"
  by (simp add: model_defs ex_defs Let_def eval_nat_numeral)

lemma ex_edge_write:
  "\<exists>st b st1. edge_prepare (exWorld Normal) exEdgeContext exSetSince exPlan exUpEdgeFound 1 exEdgeKey
                 = (exPlan, Inr st)
             \<and> edge_updateAndWriteBack (exWorld Normal) exSetSince exPlan st 1 exEdgeKey = Some (b, st1)
             \<and> props' st1 = [(''since'', VInt 4)]"
  by (simp add: model_defs ex_defs Let_def eval_nat_numeral)







section \<open>The claims\<close>






text \<open>
  Claim C3. While the index state of the partition is rebuilding, the batch that an update of
  an existing row commits contains, for an index of the row's schema with a non-empty old
  index key, a put under the delete-operation key of the partition whose value is the old
  index key and, when the new index key is non-empty, a put under the modify-operation key
  of the partition and the new index key. The batch contains no removal at all, and apart
  from the final put of the primary row every operation is a put under one of these two
  operation keys: no index entry is put or removed directly. Vertex and edge executor.
\<close>

theorem rebuilding_emits_operation_logs:
  "(AsyncAppendBatch sp p b
      \<in> set (events (UpdateTagNode_execute w tagContext node vlocks pc c0 up kv partId vId))
    \<and> getIndexState (env' w) (spaceId' pc) partId = Rebuilding
    \<and> filter_valid up \<and> filter_reader up = Some rd \<and> getData rd \<noteq> []
    \<and> index \<in> set (indexes' node) \<and> get_tag_id (schema_id index) = Some (tagId' pc)
    \<and> tag_indexKey w pc partId vId rd index \<noteq> [] \<longrightarrow>
      BatchPut (deleteOperationKey (keys w) partId) (tag_indexKey w pc partId vId rd index) \<in> set b
      \<and> (\<exists>nVal nr. last b = BatchPut (filter_key up) nVal
            \<and> getTagPropReader (row w) (spaceId' pc) (tagId' pc) nVal = Some nr
            \<and> (tag_indexKey w pc partId vId nr index \<noteq> [] \<longrightarrow>
                 (\<exists>niv. BatchPut (modifyOperationKey (keys w) partId
                                   (tag_indexKey w pc partId vId nr index)) niv \<in> set b)))
      \<and> (\<forall>k. BatchRemove k \<notin> set b)
      \<and> (\<forall>x\<in>set (butlast b). \<exists>k v. x = BatchPut (deleteOperationKey (keys w) partId) v
                                     \<or> x = BatchPut (modifyOperationKey (keys w) partId k) v))
   \<and> (AsyncAppendBatch sp p b
      \<in> set (events (UpdateEdgeNode_execute w edgeContext node elocks pc c0 up kv partId edgeKey))
    \<and> getIndexState (env' w) (spaceId' pc) partId = Rebuilding
    \<and> filter_valid up \<and> filter_reader up = Some rd \<and> getData rd \<noteq> []
    \<and> index \<in> set (indexes' node) \<and> get_edge_type (schema_id index) = Some (edgeType' pc)
    \<and> edge_indexKey w pc partId rd edgeKey index \<noteq> [] \<longrightarrow>
      BatchPut (deleteOperationKey (keys w) partId) (edge_indexKey w pc partId rd edgeKey index) \<in> set b
      \<and> (\<exists>nVal nr. last b = BatchPut (filter_key up) nVal
            \<and> getEdgePropReader (row w) (spaceId' pc) (abs (edgeType' pc)) nVal = Some nr
            \<and> (edge_indexKey w pc partId nr edgeKey index \<noteq> [] \<longrightarrow>
                 (\<exists>niv. BatchPut (modifyOperationKey (keys w) partId
                                   (edge_indexKey w pc partId nr edgeKey index)) niv \<in> set b)))
      \<and> (\<forall>k. BatchRemove k \<notin> set b)
      \<and> (\<forall>x\<in>set (butlast b). \<exists>k v. x = BatchPut (deleteOperationKey (keys w) partId) v
                                     \<or> x = BatchPut (modifyOperationKey (keys w) partId k) v))"
proof (rule conjI; rule impI)
  assume a: "AsyncAppendBatch sp p b
      \<in> set (events (UpdateTagNode_execute w tagContext node vlocks pc c0 up kv partId vId))
    \<and> getIndexState (env' w) (spaceId' pc) partId = Rebuilding
    \<and> filter_valid up \<and> filter_reader up = Some rd \<and> getData rd \<noteq> []
    \<and> index \<in> set (indexes' node) \<and> get_tag_id (schema_id index) = Some (tagId' pc)
    \<and> tag_indexKey w pc partId vId rd index \<noteq> []"
  then have ev: "AsyncAppendBatch sp p b
      \<in> set (events (UpdateTagNode_execute w tagContext node vlocks pc c0 up kv partId vId))"
    and rb: "getIndexState (env' w) (spaceId' pc) partId = Rebuilding"
    and fv: "filter_valid up" and fr: "filter_reader up = Some rd" and dn: "getData rd \<noteq> []"
    and ix: "index \<in> set (indexes' node)" and mt: "Some (tagId' pc) = get_tag_id (schema_id index)"
    and ok: "tag_indexKey w pc partId vId rd index \<noteq> []"
    by simp_all
  from tag_execute_committed[OF ev] obtain pc1 st st1 where
    p: "tag_prepare w tagContext node pc up partId vId = (pc1, Inr st)"
    and u: "tag_updateAndWriteBack w node pc1 st partId vId = Some (b, st1)" by blast
  from tag_prepare_found[OF p fv fr] have pc1: "pc1 = pc" and rd: "reader' st = Some rd"
    and vl: "val' st = getData rd" and ky: "key' st = filter_key up" by auto
  from tag_updateAndWriteBack_indexes[OF u] obtain nVal nReader batch where
    i: "tag_indexes w node pc st partId vId nVal = Some (nReader, batch)"
    and b: "b = batch @ [BatchPut (filter_key up) nVal]"
    by (auto simp: pc1 ky)
  from dn vl have vn: "val' st \<noteq> []" by simp
  from rebuilding_batch[OF rb i[unfolded tag_indexes_def] ix mt vn rd ok]
  show "BatchPut (deleteOperationKey (keys w) partId) (tag_indexKey w pc partId vId rd index) \<in> set b
      \<and> (\<exists>nVal nr. last b = BatchPut (filter_key up) nVal
            \<and> getTagPropReader (row w) (spaceId' pc) (tagId' pc) nVal = Some nr
            \<and> (tag_indexKey w pc partId vId nr index \<noteq> [] \<longrightarrow>
                 (\<exists>niv. BatchPut (modifyOperationKey (keys w) partId
                                   (tag_indexKey w pc partId vId nr index)) niv \<in> set b)))
      \<and> (\<forall>k. BatchRemove k \<notin> set b)
      \<and> (\<forall>x\<in>set (butlast b). \<exists>k v. x = BatchPut (deleteOperationKey (keys w) partId) v
                                     \<or> x = BatchPut (modifyOperationKey (keys w) partId k) v)"
    unfolding b by (auto simp: butlast_append)
next
  assume a: "AsyncAppendBatch sp p b
      \<in> set (events (UpdateEdgeNode_execute w edgeContext node elocks pc c0 up kv partId edgeKey))
    \<and> getIndexState (env' w) (spaceId' pc) partId = Rebuilding
    \<and> filter_valid up \<and> filter_reader up = Some rd \<and> getData rd \<noteq> []
    \<and> index \<in> set (indexes' node) \<and> get_edge_type (schema_id index) = Some (edgeType' pc)
    \<and> edge_indexKey w pc partId rd edgeKey index \<noteq> []"
  then have ev: "AsyncAppendBatch sp p b
      \<in> set (events (UpdateEdgeNode_execute w edgeContext node elocks pc c0 up kv partId edgeKey))"
    and rb: "getIndexState (env' w) (spaceId' pc) partId = Rebuilding"
    and fv: "filter_valid up" and fr: "filter_reader up = Some rd" and dn: "getData rd \<noteq> []"
    and ix: "index \<in> set (indexes' node)" and mt: "Some (edgeType' pc) = get_edge_type (schema_id index)"
    and ok: "edge_indexKey w pc partId rd edgeKey index \<noteq> []"
    by simp_all
  from edge_execute_committed[OF ev] obtain pc1 st st1 where
    p: "edge_prepare w edgeContext node pc up partId edgeKey = (pc1, Inr st)"
    and u: "edge_updateAndWriteBack w node pc1 st partId edgeKey = Some (b, st1)" by blast
  from edge_prepare_found[OF p fv fr] have pc1: "pc1 = pc" and rd: "reader' st = Some rd"
    and vl: "val' st = getData rd" and ky: "key' st = filter_key up" by auto
  from edge_updateAndWriteBack_indexes[OF u] obtain nVal nReader batch where
    i: "edge_indexes w node pc st partId edgeKey nVal = Some (nReader, batch)"
    and b: "b = batch @ [BatchPut (filter_key up) nVal]"
    by (auto simp: pc1 ky)
  from dn vl have vn: "val' st \<noteq> []" by simp
  from rebuilding_batch[OF rb i[unfolded edge_indexes_def] ix mt vn rd ok]
  show "BatchPut (deleteOperationKey (keys w) partId) (edge_indexKey w pc partId rd edgeKey index) \<in> set b
      \<and> (\<exists>nVal nr. last b = BatchPut (filter_key up) nVal
            \<and> getEdgePropReader (row w) (spaceId' pc) (abs (edgeType' pc)) nVal = Some nr
            \<and> (edge_indexKey w pc partId nr edgeKey index \<noteq> [] \<longrightarrow>
                 (\<exists>niv. BatchPut (modifyOperationKey (keys w) partId
                                   (edge_indexKey w pc partId nr edgeKey index)) niv \<in> set b)))
      \<and> (\<forall>k. BatchRemove k \<notin> set b)
      \<and> (\<forall>x\<in>set (butlast b). \<exists>k v. x = BatchPut (deleteOperationKey (keys w) partId) v
                                     \<or> x = BatchPut (modifyOperationKey (keys w) partId k) v)"
    unfolding b by (auto simp: butlast_append)
qed

theorem rebuilding_emits_operation_logs_witness:
  "AsyncAppendBatch 1 1 [BatchPut ''op:del'' ''i:I111:00000001'',
                         BatchPut ''op:mod:i:I1111:00000001'' [],
                         BatchPut ''v:00000001'' ''name=Sa;age=I1111;'']
     \<in> set (events (UpdateTagNode_execute (exWorld Rebuilding) exTagContext exSetAge [] exPlan exCtx0
                      exUpFound Map.empty 1 ''00000001''))
   \<and> getIndexState (env' (exWorld Rebuilding)) (spaceId' exPlan) 1 = Rebuilding
   \<and> filter_valid exUpFound \<and> filter_reader exUpFound = Some (RowReader exOldRow)
   \<and> getData (RowReader exOldRow) \<noteq> []
   \<and> exIndex \<in> set (indexes' exSetAge) \<and> get_tag_id (schema_id exIndex) = Some (tagId' exPlan)
   \<and> tag_indexKey (exWorld Rebuilding) exPlan 1 ''00000001'' (RowReader exOldRow) exIndex
        = ''i:I111:00000001''
   \<and> deleteOperationKey (keys (exWorld Rebuilding)) 1 = ''op:del''
   \<and> AsyncAppendBatch 1 1 [BatchPut ''op:del'' ''i:I1:00000001>00000002'',
                           BatchPut ''op:mod:i:I1111:00000001>00000002'' [],
                           BatchPut ''e:00000001>00000002'' ''since=I1111;'']
     \<in> set (events (UpdateEdgeNode_execute (exWorld Rebuilding) exEdgeContext exSetSince [] exPlan
                      exCtx0 exUpEdgeFound Map.empty 1 exEdgeKey))
   \<and> filter_valid exUpEdgeFound \<and> filter_reader exUpEdgeFound = Some (RowReader ''since=I1;'')
   \<and> exEdgeIndex \<in> set (indexes' exSetSince)
   \<and> get_edge_type (schema_id exEdgeIndex) = Some (edgeType' exPlan)
   \<and> edge_indexKey (exWorld Rebuilding) exPlan 1 (RowReader ''since=I1;'') exEdgeKey exEdgeIndex
        = ''i:I1:00000001>00000002''"
proof -
  have k: "deleteOperationKey (keys (exWorld Rebuilding)) 1 = ''op:del''"
    by (simp add: exWorld_def exKeys_def)
  have h: "exOldRow \<noteq> []" by (simp add: exOldRow_def)
  have f: "filter_valid exUpFound \<and> filter_reader exUpFound = Some (RowReader exOldRow)
           \<and> getData (RowReader exOldRow) \<noteq> []
           \<and> exIndex \<in> set (indexes' exSetAge) \<and> get_tag_id (schema_id exIndex) = Some (tagId' exPlan)"
    by (simp add: exUpFound_def exOldRow_def exSetAge_def exIndex_def exPlan_def)
  have g: "filter_valid exUpEdgeFound \<and> filter_reader exUpEdgeFound = Some (RowReader ''since=I1;'')
           \<and> exEdgeIndex \<in> set (indexes' exSetSince)
           \<and> get_edge_type (schema_id exEdgeIndex) = Some (edgeType' exPlan)"
    by (simp add: exUpEdgeFound_def exSetSince_def exEdgeIndex_def exPlan_def)
  show ?thesis
    using rebuilding_emits_operation_logs[where w="exWorld Rebuilding" and tagContext=exTagContext
        and node=exSetAge and vlocks="[]" and pc=exPlan and ?c0.0=exCtx0 and up=exUpFound
        and kv=Map.empty and partId=1 and vId="''00000001''" and sp=1 and p=1
        and b="[BatchPut ''op:del'' ''i:I111:00000001'', BatchPut ''op:mod:i:I1111:00000001'' [],
                BatchPut ''v:00000001'' ''name=Sa;age=I1111;'']"
        and rd="RowReader exOldRow" and index=exIndex]
      rebuilding_emits_operation_logs[where w="exWorld Rebuilding" and edgeContext=exEdgeContext
        and node=exSetSince and elocks="[]" and pc=exPlan and ?c0.0=exCtx0 and up=exUpEdgeFound
        and kv=Map.empty and partId=1 and edgeKey=exEdgeKey and sp=1 and p=1
        and b="[BatchPut ''op:del'' ''i:I1:00000001>00000002'',
                BatchPut ''op:mod:i:I1111:00000001>00000002'' [],
                BatchPut ''e:00000001>00000002'' ''since=I1111;'']"
        and rd="RowReader ''since=I1;''" and index=exEdgeIndex]
    by (simp add: k h f g ex_state ex_tag_rebuilding ex_edge_rebuilding ex_tag_indexKey_old
          ex_edge_indexKey_old)
qed

text \<open>
  Claim C4. The assignments of an update are applied from left to right, each in the context
  that the assignments before it have produced: the assignment that follows the list
  \<open>earlier\<close> is evaluated in the context \<open>c1\<close> that \<open>earlier\<close> leaves, and \<open>c1\<close> holds for every
  property assigned in \<open>earlier\<close> the value that the property map holds. Both executors encode
  the property map that this loop leaves. In particular \<open>set x = a, y = x + 1\<close> with \<open>a = 5\<close>
  in the context gives \<open>x = 5\<close> and \<open>y = 6\<close> for any prior properties.
\<close>

theorem updates_applied_left_to_right:
  "(applyUpdatedProps w isEdge n earlier (props, c) = Some (props1, c1)
     \<and> decode (row w) (up_value u) = Some ex \<longrightarrow>
      applyUpdatedProps w isEdge n (earlier @ [u]) (props, c)
        = Some (AList.update (up_name u) (eval (row w) ex c1) props1,
                setProp isEdge n (up_name u) (eval (row w) ex c1) c1)
      \<and> (\<forall>u'\<in>set earlier. getProp isEdge n (up_name u') c1 = map_of props1 (up_name u')
                             \<and> map_of props1 (up_name u') \<noteq> None))
   \<and> (tag_updateAndWriteBack w node pc st partId vId = Some (b, st1) \<longrightarrow>
        applyUpdatedProps w False (name' st) (updatedProps' node) (props' st, expCtx' st)
          = Some (props' st1, expCtx' st1)
        \<and> (\<exists>nVal. finish (row w) (schema' st) (props' st1) = (SUCCEEDED, nVal)
                   \<and> last b = BatchPut (key' st) nVal))
   \<and> (edge_updateAndWriteBack w node pc st partId edgeKey = Some (b, st1) \<longrightarrow>
        applyUpdatedProps w True (name' st) (updatedProps' node) (props' st, expCtx' st)
          = Some (props' st1, expCtx' st1)
        \<and> (\<exists>nVal. finish (row w) (schema' st) (props' st1) = (SUCCEEDED, nVal)
                   \<and> last b = BatchPut (key' st) nVal))
   \<and> (tagFilters c (''t'', ''a'') = Some (VInt 5) \<longrightarrow>
        (\<exists>props2 c2.
           applyUpdatedProps (exWorld s) False ''t''
             [\<lparr>up_name = ''x'', up_value = ''a''\<rparr>, \<lparr>up_name = ''y'', up_value = ''x+1''\<rparr>] (props, c)
             = Some (props2, c2)
           \<and> map_of props2 ''x'' = Some (VInt 5) \<and> map_of props2 ''y'' = Some (VInt 6)
           \<and> tagFilters c2 (''t'', ''x'') = Some (VInt 5)
           \<and> tagFilters c2 (''t'', ''y'') = Some (VInt 6)))"
proof (intro conjI impI)
  assume a: "applyUpdatedProps w isEdge n earlier (props, c) = Some (props1, c1)
     \<and> decode (row w) (up_value u) = Some ex"
  then show "applyUpdatedProps w isEdge n (earlier @ [u]) (props, c)
        = Some (AList.update (up_name u) (eval (row w) ex c1) props1,
                setProp isEdge n (up_name u) (eval (row w) ex c1) c1)"
    by (simp add: applyUpdatedProps_append Let_def)
  from a have "applyUpdatedProps w isEdge n earlier (props, c) = Some (props1, c1)" by simp
  from applyUpdatedProps_agree[OF this, of "{}"]
  show "\<forall>u'\<in>set earlier. getProp isEdge n (up_name u') c1 = map_of props1 (up_name u')
                             \<and> map_of props1 (up_name u') \<noteq> None"
    by simp
next
  assume "tag_updateAndWriteBack w node pc st partId vId = Some (b, st1)"
  from tag_updateAndWriteBack_Some[OF this]
  show "applyUpdatedProps w False (name' st) (updatedProps' node) (props' st, expCtx' st)
          = Some (props' st1, expCtx' st1)"
    and "\<exists>nVal. finish (row w) (schema' st) (props' st1) = (SUCCEEDED, nVal)
                   \<and> last b = BatchPut (key' st) nVal"
    by auto
next
  assume "edge_updateAndWriteBack w node pc st partId edgeKey = Some (b, st1)"
  from edge_updateAndWriteBack_Some[OF this]
  show "applyUpdatedProps w True (name' st) (updatedProps' node) (props' st, expCtx' st)
          = Some (props' st1, expCtx' st1)"
    and "\<exists>nVal. finish (row w) (schema' st) (props' st1) = (SUCCEEDED, nVal)
                   \<and> last b = BatchPut (key' st) nVal"
    by auto
next
  assume "tagFilters c (''t'', ''a'') = Some (VInt 5)"
  then show "\<exists>props2 c2.
           applyUpdatedProps (exWorld s) False ''t''
             [\<lparr>up_name = ''x'', up_value = ''a''\<rparr>, \<lparr>up_name = ''y'', up_value = ''x+1''\<rparr>] (props, c)
             = Some (props2, c2)
           \<and> map_of props2 ''x'' = Some (VInt 5) \<and> map_of props2 ''y'' = Some (VInt 6)
           \<and> tagFilters c2 (''t'', ''x'') = Some (VInt 5)
           \<and> tagFilters c2 (''t'', ''y'') = Some (VInt 6)"
    by (rule ex_set_x_y)
qed

theorem updates_applied_left_to_right_witness:
  "applyUpdatedProps (exWorld Normal) False ''t'' [\<lparr>up_name = ''x'', up_value = ''a''\<rparr>]
     ([(''x'', VInt 0)], exCtxA) = Some ([(''x'', VInt 5)], setProp False ''t'' ''x'' (VInt 5) exCtxA)
   \<and> decode (row (exWorld Normal)) (up_value \<lparr>up_name = ''y'', up_value = ''x+1''\<rparr>)
       = Some (Add (TagProp ''t'' ''x'') (Const (VInt 1)))
   \<and> applyUpdatedProps (exWorld Normal) False ''t''
       ([\<lparr>up_name = ''x'', up_value = ''a''\<rparr>] @ [\<lparr>up_name = ''y'', up_value = ''x+1''\<rparr>])
       ([(''x'', VInt 0)], exCtxA)
      = Some ([(''x'', VInt 5), (''y'', VInt 6)],
              setProp False ''t'' ''y'' (VInt 6) (setProp False ''t'' ''x'' (VInt 5) exCtxA))
   \<and> getProp False ''t'' ''x'' (setProp False ''t'' ''x'' (VInt 5) exCtxA) = Some (VInt 5)
   \<and> tagFilters exCtxA (''t'', ''a'') = Some (VInt 5)
   \<and> tagFilters exCtxA (''t'', ''x'') = Some (VInt 0)
   \<and> (\<exists>st b st1. tag_updateAndWriteBack (exWorld Normal) exSetAge exPlan st 1 ''00000001'' = Some (b, st1)
          \<and> applyUpdatedProps (exWorld Normal) False (name' st) (updatedProps' exSetAge)
               (props' st, expCtx' st) = Some (props' st1, expCtx' st1)
          \<and> props' st1 = [(''name'', VStr ''a''), (''age'', VInt 4)])
   \<and> (\<exists>st b st1. edge_updateAndWriteBack (exWorld Normal) exSetSince exPlan st 1 exEdgeKey = Some (b, st1)
          \<and> applyUpdatedProps (exWorld Normal) True (name' st) (updatedProps' exSetSince)
               (props' st, expCtx' st) = Some (props' st1, expCtx' st1)
          \<and> props' st1 = [(''since'', VInt 4)])"
proof -
  obtain st b st1 where
    u: "tag_updateAndWriteBack (exWorld Normal) exSetAge exPlan st 1 ''00000001'' = Some (b, st1)"
    and p: "props' st1 = [(''name'', VStr ''a''), (''age'', VInt 4)]"
    using ex_tag_write by blast
  obtain st' b' st1' where
    u': "edge_updateAndWriteBack (exWorld Normal) exSetSince exPlan st' 1 exEdgeKey = Some (b', st1')"
    and p': "props' st1' = [(''since'', VInt 4)]"
    using ex_edge_write by blast
  note t1 = updates_applied_left_to_right[where w="exWorld Normal" and isEdge=False and n="''t''"
      and earlier="[\<lparr>up_name = ''x'', up_value = ''a''\<rparr>]" and props="[(''x'', VInt 0)]"
      and c=exCtxA and ?props1.0="[(''x'', VInt 5)]"
      and ?c1.0="setProp False ''t'' ''x'' (VInt 5) exCtxA"
      and u="\<lparr>up_name = ''y'', up_value = ''x+1''\<rparr>"
      and ex="Add (TagProp ''t'' ''x'') (Const (VInt 1))"
      and node=exSetAge and pc=exPlan and st=st and partId=1 and vId="''00000001''" and b=b
      and ?st1.0=st1 and edgeKey=exEdgeKey and s=Normal]
  note t2 = updates_applied_left_to_right[where w="exWorld Normal" and isEdge=False and n="''t''"
      and earlier="[\<lparr>up_name = ''x'', up_value = ''a''\<rparr>]" and props="[(''x'', VInt 0)]"
      and c=exCtxA and ?props1.0="[(''x'', VInt 5)]"
      and ?c1.0="setProp False ''t'' ''x'' (VInt 5) exCtxA"
      and u="\<lparr>up_name = ''y'', up_value = ''x+1''\<rparr>"
      and ex="Add (TagProp ''t'' ''x'') (Const (VInt 1))"
      and node=exSetSince and pc=exPlan and st=st' and partId=1 and vId="''00000001''" and b=b'
      and ?st1.0=st1' and edgeKey=exEdgeKey and s=Normal]
  have a: "applyUpdatedProps (exWorld Normal) False (name' st) (updatedProps' exSetAge)
               (props' st, expCtx' st) = Some (props' st1, expCtx' st1)"
    using t1 u by blast
  have a': "applyUpdatedProps (exWorld Normal) True (name' st') (updatedProps' exSetSince)
               (props' st', expCtx' st') = Some (props' st1', expCtx' st1')"
    using t2 u' by blast
  have e1: "\<exists>st b st1. tag_updateAndWriteBack (exWorld Normal) exSetAge exPlan st 1 ''00000001'' = Some (b, st1)
          \<and> applyUpdatedProps (exWorld Normal) False (name' st) (updatedProps' exSetAge)
               (props' st, expCtx' st) = Some (props' st1, expCtx' st1)
          \<and> props' st1 = [(''name'', VStr ''a''), (''age'', VInt 4)]"
    using u a p by blast
  have e2: "\<exists>st b st1. edge_updateAndWriteBack (exWorld Normal) exSetSince exPlan st 1 exEdgeKey = Some (b, st1)
          \<and> applyUpdatedProps (exWorld Normal) True (name' st) (updatedProps' exSetSince)
               (props' st, expCtx' st) = Some (props' st1, expCtx' st1)
          \<and> props' st1 = [(''since'', VInt 4)]"
    using u' a' p' by blast
  have c: "tagFilters exCtxA (''t'', ''a'') = Some (VInt 5) \<and> tagFilters exCtxA (''t'', ''x'') = Some (VInt 0)"
    by (simp add: exCtxA_def)
  show ?thesis
    using e1 e2 c ex_apply_x[of Normal] ex_apply_x_y[of Normal] ex_decode_x1[of Normal]
    by simp
qed



text \<open>
  Claim C6. When the lock key of the row, (space, part, tag, vid) for a vertex and
  (space, part, src, type, rank, dst) for an edge, is already in the lock table, the executor
  returns \<open>E_STORAGE_QUERY_CONCURRENT_MODIFY\<close> at once: the only thing it does is log the
  conflicting key; the upstream read is not run, nothing is appended, the store is unchanged
  and there is no retry. The result does not depend on what the upstream nodes would return.
\<close>

theorem lock_conflict_concurrent_modify:
  "((spaceId' pc, partId, tagId' pc, vId) \<in> set vlocks \<longrightarrow>
      UpdateTagNode_execute w tagContext node vlocks pc c0 up kv partId vId =
        \<lparr>code = E_STORAGE_QUERY_CONCURRENT_MODIFY, store = kv,
         events = [LogVertexConflict (spaceId' pc, partId, tagId' pc, vId)],
         planCtx = pc, ctx = c0\<rparr>)
   \<and> ((spaceId' pc, partId, ek_src edgeKey, ek_edge_type edgeKey, ek_ranking edgeKey,
        ek_dst edgeKey) \<in> set elocks \<longrightarrow>
      UpdateEdgeNode_execute w edgeContext node elocks pc c0 up kv partId edgeKey =
        \<lparr>code = E_STORAGE_QUERY_CONCURRENT_MODIFY, store = kv,
         events = [LogEdgeConflict (spaceId' pc, partId, ek_src edgeKey, ek_edge_type edgeKey,
                                    ek_ranking edgeKey, ek_dst edgeKey)],
         planCtx = pc, ctx = c0\<rparr>)"
  by (simp add: tag_execute_conflict edge_execute_conflict)

theorem lock_conflict_concurrent_modify_witness:
  "(1, 1, 10, ''00000001'') \<in> set [(1, 1, 10, ''00000001'')]
   \<and> UpdateTagNode_execute (exWorld Normal) exTagContext exSetAge [(1, 1, 10, ''00000001'')] exPlan
       exCtx0 exUpFound Map.empty 1 ''00000001'' =
        \<lparr>code = E_STORAGE_QUERY_CONCURRENT_MODIFY, store = Map.empty,
         events = [LogVertexConflict (1, 1, 10, ''00000001'')],
         planCtx = exPlan, ctx = exCtx0\<rparr>
   \<and> (1, 1, ''00000001'', 5, 0, ''00000002'') \<in> set [(1, 1, ''00000001'', 5, 0, ''00000002'')]
   \<and> UpdateEdgeNode_execute (exWorld Normal) exEdgeContext exEdgeNode
       [(1, 1, ''00000001'', 5, 0, ''00000002'')] exPlan exCtx0 exUpMissing Map.empty 1 exEdgeKey =
        \<lparr>code = E_STORAGE_QUERY_CONCURRENT_MODIFY, store = Map.empty,
         events = [LogEdgeConflict (1, 1, ''00000001'', 5, 0, ''00000002'')],
         planCtx = exPlan, ctx = exCtx0\<rparr>"
  using lock_conflict_concurrent_modify[of exPlan 1 "''00000001''" "[(1, 1, 10, ''00000001'')]"
          "exWorld Normal" exTagContext exSetAge exCtx0 exUpFound Map.empty exEdgeKey
          "[(1, 1, ''00000001'', 5, 0, ''00000002'')]" exEdgeContext]
        lock_conflict_concurrent_modify[of exPlan 1 "''00000001''" "[(1, 1, 10, ''00000001'')]"
          "exWorld Normal" exTagContext exEdgeNode exCtx0 exUpMissing Map.empty exEdgeKey
          "[(1, 1, ''00000001'', 5, 0, ''00000002'')]" exEdgeContext]
  by (simp add: exPlan_def exEdgeKey_def)










end
